theory Spec2Isabelle
  imports Main "HOL-Library.Sublist" "HOL-Library.Multiset"
begin

section \<open>Values exchanged with the persistence layer and the model backend\<close>

text \<open>
  The TypeScript sources treat message content, tool-call arguments and tool results as
  untyped values (\<^verbatim>\<open>unknown\<close>, or unions that are only asserted with \<^verbatim>\<open>as\<close>).
  They are modelled as JavaScript values as \<^verbatim>\<open>JSON.parse\<close> produces them, plus
  \<^verbatim>\<open>undefined\<close> for an absent field. Only the zero test of a number is ever used, so
  numbers are integers here.
\<close>

datatype jsval =
    JUndefined
  | JNull
  | JBool bool
  | JNum int
  | JStr string
  | JArr "jsval list"
  | JObj "(string \<times> jsval) list"

text \<open>The truth test \<^verbatim>\<open>!content\<close>: arrays and objects, also empty ones, are truthy.\<close>

fun falsy :: "jsval \<Rightarrow> bool" where
  "falsy JUndefined = True"
| "falsy JNull = True"
| "falsy (JBool b) = (\<not> b)"
| "falsy (JNum n) = (n = 0)"
| "falsy (JStr s) = (s = [])"
| "falsy (JArr xs) = False"
| "falsy (JObj kvs) = False"

text \<open>The loose test \<^verbatim>\<open>v != null\<close> holds for everything but \<^verbatim>\<open>null\<close> and \<^verbatim>\<open>undefined\<close>.\<close>

fun notNullish :: "jsval \<Rightarrow> bool" where
  "notNullish JUndefined = False"
| "notNullish JNull = False"
| "notNullish v = True"

fun isJStr :: "jsval \<Rightarrow> bool" where
  "isJStr (JStr s) = True"
| "isJStr v = False"

section \<open>session.ts: history reconstruction\<close>

text \<open>A \<^verbatim>\<open>Part\<close> is any value; \<^verbatim>\<open>{ text: s }\<close> is the object with the single key text.\<close>

type_synonym part = jsval

definition textPart :: "string \<Rightarrow> part" where
  "textPart s = JObj [(''text'', JStr s)]"

record content =
  role :: string
  parts :: "part list"

text \<open>
  \<^verbatim>\<open>ToolCallRecord\<close> and \<^verbatim>\<open>MessageRecord\<close>, with the fields that
  \<^verbatim>\<open>messageRecordsToHistory\<close> reads. An absent \<^verbatim>\<open>result\<close> is \<open>JUndefined\<close>, an absent
  \<^verbatim>\<open>toolCalls\<close> is \<open>None\<close>. The field \<^verbatim>\<open>type\<close> is the discriminant string of the record.
\<close>

record toolCallRecord =
  tc_id :: string
  tc_name :: string
  tc_args :: jsval
  tc_result :: jsval

record messageRecord =
  msg_type :: string
  msg_content :: jsval
  toolCalls :: "toolCallRecord list option"

definition normalizeItem :: "jsval \<Rightarrow> part" where
  "normalizeItem item = (case item of JStr s \<Rightarrow> textPart s | _ \<Rightarrow> item)"

definition normalizeParts :: "jsval \<Rightarrow> part list" where
  "normalizeParts c =
     (if falsy c then []
      else case c of
        JStr s \<Rightarrow> [textPart s]
      | JArr items \<Rightarrow> map normalizeItem items
      | _ \<Rightarrow> [c])"

definition functionCallPart :: "toolCallRecord \<Rightarrow> part" where
  "functionCallPart tc =
     JObj [(''functionCall'',
            JObj [(''id'', JStr (tc_id tc)), (''name'', JStr (tc_name tc)), (''args'', tc_args tc)])]"

text \<open>The parts of the model turn: the normalized content, then one call part per tool call.\<close>

definition modelParts :: "messageRecord \<Rightarrow> part list" where
  "modelParts msg =
     normalizeParts (msg_content msg) @
     (case toolCalls msg of None \<Rightarrow> [] | Some tcs \<Rightarrow> map functionCallPart tcs)"

text \<open>The inner loop over the tool calls that pushes the normalized results.\<close>

fun responseParts_loop :: "part list \<Rightarrow> toolCallRecord list \<Rightarrow> part list" where
  "responseParts_loop acc [] = acc"
| "responseParts_loop acc (tc # tcs) =
     responseParts_loop
       (if notNullish (tc_result tc) then acc @ normalizeParts (tc_result tc) else acc) tcs"

text \<open>
  One iteration of the loop body: the history after the entry \<open>msg\<close> has been handled.
  The guard \<^verbatim>\<open>msg.toolCalls?.some((tc) => tc.result != null)\<close> is false when
  \<^verbatim>\<open>toolCalls\<close> is absent.
\<close>

definition pushMessage :: "content list \<Rightarrow> messageRecord \<Rightarrow> content list" where
  "pushMessage history msg =
     (if msg_type msg = ''info'' \<or> msg_type msg = ''error'' \<or> msg_type msg = ''warning''
      then history
      else
        let h1 = (if msg_type msg = ''user''
                  then (let ps = normalizeParts (msg_content msg)
                        in if length ps > 0 then history @ [\<lparr>role = ''user'', parts = ps\<rparr>]
                           else history)
                  else history)
        in if msg_type msg = ''gemini''
           then
             (let mps = modelParts msg;
                  h2 = (if length mps > 0 then h1 @ [\<lparr>role = ''model'', parts = mps\<rparr>] else h1)
              in case toolCalls msg of
                   None \<Rightarrow> h2
                 | Some tcs \<Rightarrow>
                     if list_ex (\<lambda>tc. notNullish (tc_result tc)) tcs
                     then (let rps = responseParts_loop [] tcs
                           in if length rps > 0 then h2 @ [\<lparr>role = ''user'', parts = rps\<rparr>]
                              else h2)
                     else h2)
           else h1)"

fun history_loop :: "content list \<Rightarrow> messageRecord list \<Rightarrow> content list" where
  "history_loop history [] = history"
| "history_loop history (msg # msgs) = history_loop (pushMessage history msg) msgs"

definition messageRecordsToHistory :: "messageRecord list \<Rightarrow> content list" where
  "messageRecordsToHistory messages = history_loop [] messages"

text \<open>
  Modelled from the spec: the encoder of reconstructed turns back into the persisted record
  schema, which the repository does not contain (records are written by the backend). A
  user-role turn becomes a user entry and a model-role turn a model entry, each carrying the
  turn's parts as its content and no tool calls.
\<close>

definition encodeTurn :: "content \<Rightarrow> messageRecord" where
  "encodeTurn t =
     \<lparr>msg_type = (if role t = ''model'' then ''gemini'' else ''user''),
      msg_content = JArr (parts t), toolCalls = None\<rparr>"

definition encodeHistory :: "content list \<Rightarrow> messageRecord list" where
  "encodeHistory turns = map encodeTurn turns"

text \<open>The entries that reconstruction skips at the top of its loop.\<close>

definition dropped :: "messageRecord \<Rightarrow> bool" where
  "dropped msg = (msg_type msg = ''info'' \<or> msg_type msg = ''error'' \<or> msg_type msg = ''warning'')"

text \<open>
  What every emitted turn satisfies: its role is user or model, it has at least one part, and
  no part is a bare string.
\<close>

definition goodTurn :: "content \<Rightarrow> bool" where
  "goodTurn t =
     ((role t = ''user'' \<or> role t = ''model'') \<and> parts t \<noteq> [] \<and> list_all (\<lambda>p. \<not> isJStr p) (parts t))"

section \<open>tool.ts: tool definitions and their execution\<close>

text \<open>
  What an action can throw: a \<^verbatim>\<open>ToolError\<close>, another instance of \<^verbatim>\<open>Error\<close> (each with its
  message), or a value that is no \<^verbatim>\<open>Error\<close>, kept as its \<^verbatim>\<open>String(...)\<close> rendering.
\<close>

datatype thrown = ToolError string | OtherError string | NonError string

fun isToolError :: "thrown \<Rightarrow> bool" where
  "isToolError (ToolError m) = True"
| "isToolError e = False"

text \<open>\<^verbatim>\<open>error instanceof Error ? error.message : String(error)\<close>\<close>

fun errorMessage :: "thrown \<Rightarrow> string" where
  "errorMessage (ToolError m) = m"
| "errorMessage (OtherError m) = m"
| "errorMessage (NonError s) = s"

record toolResult =
  llmContent :: string
  returnDisplay :: string
  error :: "string option"

text \<open>
  \<^verbatim>\<open>SessionContext\<close>, with the agent back-reference as a parameter (the tools below only ask
  it for the core configuration); the file and shell capabilities are not read by any
  function modelled here.
\<close>

record 'a sessionContext =
  sessionId :: string
  transcript :: "content list"
  cwd :: string
  timestamp :: string
  agent :: 'a

record ('p, 'a) toolDef =
  tool_name :: string
  description :: string
  sendErrorsToModel :: "bool option"
  action :: "'p \<Rightarrow> 'a sessionContext \<Rightarrow> thrown + jsval"

text \<open>
  \<^verbatim>\<open>serialize\<close>: a string passes through, anything else goes through
  \<^verbatim>\<open>JSON.stringify(value, null, 2)\<close>, a parameter here (it can throw).
\<close>

definition serialize :: "(jsval \<Rightarrow> thrown + string) \<Rightarrow> jsval \<Rightarrow> thrown + string" where
  "serialize stringify v = (case v of JStr s \<Rightarrow> Inr s | _ \<Rightarrow> stringify v)"

text \<open>
  \<^verbatim>\<open>SdkToolInvocation.execute\<close>: the \<^verbatim>\<open>try\<close> block covers the action and the
  serialization; the \<^verbatim>\<open>catch\<close> converts or rethrows.
\<close>

definition execute ::
  "(jsval \<Rightarrow> thrown + string) \<Rightarrow> bool \<Rightarrow> ('p \<Rightarrow> 'a sessionContext \<Rightarrow> thrown + jsval) \<Rightarrow>
   'p \<Rightarrow> 'a sessionContext \<Rightarrow> thrown + toolResult" where
  "execute stringify sendErrors act params context =
     (case (case act params context of
              Inl e \<Rightarrow> Inl e
            | Inr res \<Rightarrow> serialize stringify res) of
        Inr output \<Rightarrow> Inr \<lparr>llmContent = output, returnDisplay = output, error = None\<rparr>
      | Inl e \<Rightarrow>
          if sendErrors \<or> isToolError e
          then (let message = errorMessage e
                in Inr \<lparr>llmContent = ''Error: '' @ message,
                        returnDisplay = ''Error: '' @ message,
                        error = Some message\<rparr>)
          else Inl e)"

text \<open>
  \<^verbatim>\<open>SdkTool.createInvocation(...).execute(...)\<close>: the invocation is built with
  \<^verbatim>\<open>def.sendErrorsToModel ?? false\<close> and the tool's bound context.
\<close>

definition sdkTool_execute ::
  "(jsval \<Rightarrow> thrown + string) \<Rightarrow> ('p, 'a) toolDef \<Rightarrow> 'p \<Rightarrow> 'a sessionContext \<Rightarrow>
   thrown + toolResult" where
  "sdkTool_execute stringify def params context =
     execute stringify (case sendErrorsToModel def of None \<Rightarrow> False | Some b \<Rightarrow> b)
       (action def) params context"

section \<open>subagent.ts: the sub-agent bridge\<close>

text \<open>
  Modelled from the spec: the termination reasons are an enumeration of the core library,
  which the sources only import. A reason is its code, the string that the template literal
  of \<^verbatim>\<open>executeLocalAgent\<close> interpolates; \<open>GOAL\<close> is the reached-its-goal reason.
\<close>

type_synonym agentTerminateMode = string

definition GOAL :: agentTerminateMode where
  "GOAL = ''GOAL''"

record outputObject =
  terminate_reason :: agentTerminateMode
  result :: string

record localAgentDefinition =
  agent_name :: string
  agent_description :: string
  modelConfig_model :: string

text \<open>
  The part of the core configuration that \<^verbatim>\<open>executeLocalAgent\<close> touches: the active model
  and the runtime model configurations registered under an alias.
\<close>

record coreConfig =
  activeModel :: string
  runtimeModelConfigs :: "(string \<times> string) list"

definition registerRuntimeModelConfig :: "string \<Rightarrow> string \<Rightarrow> coreConfig \<Rightarrow> coreConfig" where
  "registerRuntimeModelConfig alias model config =
     config\<lparr>runtimeModelConfigs := (alias, model) # runtimeModelConfigs config\<rparr>"

text \<open>
  \<^verbatim>\<open>executeLocalAgent\<close>. The executor (\<^verbatim>\<open>LocalAgentExecutor.create\<close>, then \<^verbatim>\<open>run\<close>) is the
  parameter \<open>run\<close>: it sees the definition, the configuration after the alias has been
  registered and the parameters, and either throws or returns an output object.
\<close>

definition executeLocalAgent ::
  "(localAgentDefinition \<Rightarrow> coreConfig \<Rightarrow> 'p \<Rightarrow> thrown + outputObject) \<Rightarrow>
   localAgentDefinition \<Rightarrow> 'p \<Rightarrow> coreConfig sessionContext \<Rightarrow> thrown + string" where
  "executeLocalAgent run def params ctx =
     (let config = agent ctx;
          alias = agent_name def @ ''-config'';
          config1 = registerRuntimeModelConfig alias
                      (if modelConfig_model def = ''inherit'' then activeModel config
                       else modelConfig_model def) config
      in case run def config1 params of
           Inl e \<Rightarrow> Inl e
         | Inr res \<Rightarrow>
             if terminate_reason res \<noteq> GOAL
             then Inl (ToolError (''Sub-agent '' @ [CHR 0x22] @ agent_name def @ [CHR 0x22] @
                                  '' terminated: '' @ terminate_reason res))
             else Inr (result res))"

definition wrapLocalAgentAsTool ::
  "(localAgentDefinition \<Rightarrow> coreConfig \<Rightarrow> 'p \<Rightarrow> thrown + outputObject) \<Rightarrow>
   localAgentDefinition \<Rightarrow> ('p, coreConfig) toolDef" where
  "wrapLocalAgentAsTool run def =
     \<lparr>tool_name = agent_name def,
      description = agent_description def,
      sendErrorsToModel = Some True,
      action = (\<lambda>params ctx. map_sum id JStr (executeLocalAgent run def params ctx))\<rparr>"

subsection \<open>Remote agents\<close>

text \<open>A part of the remote protocol, by its \<^verbatim>\<open>kind\<close>: text, file or data.\<close>

datatype a2aPart = TextPart string | FilePart jsval | DataPart jsval

record a2aMessage =
  message_parts :: "a2aPart list"

record taskStatus =
  status_message :: "a2aMessage option"

datatype a2aResult = Message a2aMessage | Task "taskStatus option"

text \<open>\<^verbatim>\<open>Array.prototype.join\<close> on strings.\<close>

fun join :: "string \<Rightarrow> string list \<Rightarrow> string" where
  "join sep [] = []"
| "join sep [x] = x"
| "join sep (x # y # ys) = x @ sep @ join sep (y # ys)"

fun isTextPart :: "a2aPart \<Rightarrow> bool" where
  "isTextPart (TextPart t) = True"
| "isTextPart p = False"

fun partText :: "a2aPart \<Rightarrow> string" where
  "partText (TextPart t) = t"
| "partText p = []"

definition extractTextFromParts :: "a2aPart list \<Rightarrow> string" where
  "extractTextFromParts ps = join [CHR 0x0A] (map partText (filter isTextPart ps))"

text \<open>\<^verbatim>\<open>result.status?.message?.parts\<close> is undefined when the status or its message is absent.\<close>

definition extractTextFromResult :: "a2aResult \<Rightarrow> string" where
  "extractTextFromResult res =
     (case res of
        Message m \<Rightarrow> extractTextFromParts (message_parts m)
      | Task st \<Rightarrow>
          (case (case st of None \<Rightarrow> None
                 | Some s \<Rightarrow> (case status_message s of None \<Rightarrow> None
                              | Some m \<Rightarrow> Some (message_parts m))) of
             Some ps \<Rightarrow> extractTextFromParts ps
           | None \<Rightarrow> []))"

text \<open>
  The action of \<^verbatim>\<open>wrapRemoteAgentAsTool\<close>. The protocol client (created from the agent card,
  then \<^verbatim>\<open>sendMessage\<close> with the query as one text part) is the parameter \<open>sendMessage\<close>;
  \<^verbatim>\<open>String(...)\<close> and \<^verbatim>\<open>JSON.stringify\<close> are parameters as well.
\<close>

definition remoteQuery :: "(jsval \<Rightarrow> string) \<Rightarrow> (jsval \<Rightarrow> string) \<Rightarrow> jsval \<Rightarrow> string" where
  "remoteQuery toStr stringify params =
     (case params of
        JObj kvs \<Rightarrow>
          (case map_of kvs ''query'' of
             Some q \<Rightarrow> toStr (if notNullish q then q else JStr [])
           | None \<Rightarrow> stringify params)
      | _ \<Rightarrow> stringify params)"

definition remoteAgentAction ::
  "(jsval \<Rightarrow> string) \<Rightarrow> (jsval \<Rightarrow> string) \<Rightarrow> (string \<Rightarrow> thrown + a2aResult) \<Rightarrow>
   jsval \<Rightarrow> thrown + string" where
  "remoteAgentAction toStr stringify sendMessage params =
     (case sendMessage (remoteQuery toStr stringify params) of
        Inl e \<Rightarrow> Inl e
      | Inr res \<Rightarrow> Inr (extractTextFromResult res))"

section \<open>session.ts: listing the persisted sessions\<close>

text \<open>
  Reading a property of a parsed value, for the keys that \<^verbatim>\<open>listSessions\<close> reads (none of them
  is an index): on \<^verbatim>\<open>null\<close> and \<^verbatim>\<open>undefined\<close> it throws a \<^verbatim>\<open>TypeError\<close>, on an object it
  gives the value under the key or \<^verbatim>\<open>undefined\<close>, arrays and strings have a \<^verbatim>\<open>length\<close>.
\<close>

fun getProp :: "jsval \<Rightarrow> string \<Rightarrow> thrown + jsval" where
  "getProp JUndefined k = Inl (OtherError ''TypeError'')"
| "getProp JNull k = Inl (OtherError ''TypeError'')"
| "getProp (JObj kvs) k = Inr (case map_of kvs k of None \<Rightarrow> JUndefined | Some v \<Rightarrow> v)"
| "getProp (JArr xs) k = Inr (if k = ''length'' then JNum (int (length xs)) else JUndefined)"
| "getProp (JStr s) k = Inr (if k = ''length'' then JNum (int (length s)) else JUndefined)"
| "getProp (JBool b) k = Inr JUndefined"
| "getProp (JNum n) k = Inr JUndefined"

definition bindE :: "'e + 'a \<Rightarrow> ('a \<Rightarrow> 'e + 'b) \<Rightarrow> 'e + 'b" where
  "bindE r f = (case r of Inl e \<Rightarrow> Inl e | Inr v \<Rightarrow> f v)"

record sessionInfo =
  si_sessionId :: jsval
  si_filePath :: string
  si_startTime :: jsval
  si_lastUpdated :: jsval
  si_messageCount :: jsval
  si_summary :: jsval

text \<open>
  What \<^verbatim>\<open>listSessions\<close> takes from its surroundings: the project directory of the
  configuration, the file-name prefix constant of the core library, \<^verbatim>\<open>path.join\<close>, the
  directory and the files as \<^verbatim>\<open>fs\<close> finds them, \<^verbatim>\<open>JSON.parse\<close> and the collation
  \<^verbatim>\<open>localeCompare\<close>.
\<close>

record fsEnv =
  projectTempDir :: string
  SESSION_FILE_PREFIX :: string
  path_join :: "string \<Rightarrow> string \<Rightarrow> string"
  readdir :: "string \<Rightarrow> thrown + string list"
  readFile :: "string \<Rightarrow> thrown + string"
  JSON_parse :: "string \<Rightarrow> thrown + jsval"
  localeCompare :: "string \<Rightarrow> string \<Rightarrow> int"

text \<open>
  \<^verbatim>\<open>Array.prototype.sort\<close> with a comparator: the stable sort, here by insertion. An element
  goes before the first element it does not compare greater than.
\<close>

fun insort_cmp :: "('a \<Rightarrow> 'a \<Rightarrow> int) \<Rightarrow> 'a \<Rightarrow> 'a list \<Rightarrow> 'a list" where
  "insort_cmp cmp x [] = [x]"
| "insort_cmp cmp x (y # ys) = (if cmp x y \<le> 0 then x # y # ys else y # insort_cmp cmp x ys)"

definition sort_cmp :: "('a \<Rightarrow> 'a \<Rightarrow> int) \<Rightarrow> 'a list \<Rightarrow> 'a list" where
  "sort_cmp cmp xs = foldr (insort_cmp cmp) xs []"

definition isSessionFile :: "fsEnv \<Rightarrow> string \<Rightarrow> bool" where
  "isSessionFile env f = (prefix (SESSION_FILE_PREFIX env) f \<and> suffix ''.json'' f)"

text \<open>The body of the \<^verbatim>\<open>try\<close> block for one file; \<open>Inl\<close> is what the \<^verbatim>\<open>catch\<close> receives.\<close>

definition readSession :: "fsEnv \<Rightarrow> string \<Rightarrow> string \<Rightarrow> thrown + sessionInfo" where
  "readSession env chatsDir file =
     (let filePath = path_join env chatsDir file
      in bindE (readFile env filePath) (\<lambda>raw.
         bindE (JSON_parse env raw) (\<lambda>conv.
         bindE (getProp conv ''sessionId'') (\<lambda>sid.
         bindE (getProp conv ''startTime'') (\<lambda>st.
         bindE (getProp conv ''lastUpdated'') (\<lambda>lu.
         bindE (getProp conv ''messages'') (\<lambda>msgs.
         bindE (getProp msgs ''length'') (\<lambda>n.
         bindE (getProp conv ''summary'') (\<lambda>sm.
           Inr \<lparr>si_sessionId = sid, si_filePath = filePath, si_startTime = st,
                si_lastUpdated = lu, si_messageCount = n, si_summary = sm\<rparr>)))))))))"

fun sessions_loop :: "fsEnv \<Rightarrow> string \<Rightarrow> sessionInfo list \<Rightarrow> string list \<Rightarrow> sessionInfo list" where
  "sessions_loop env chatsDir sessions [] = sessions"
| "sessions_loop env chatsDir sessions (file # files) =
     sessions_loop env chatsDir
       (case readSession env chatsDir file of
          Inr info \<Rightarrow> sessions @ [info]
        | Inl e \<Rightarrow> sessions)
       files"

definition listSessions :: "fsEnv \<Rightarrow> sessionInfo list" where
  "listSessions env =
     (let chatsDir = path_join env (projectTempDir env) ''chats''
      in case readdir env chatsDir of
           Inl e \<Rightarrow> []
         | Inr files \<Rightarrow>
             (let sessionFiles =
                    sort_cmp (\<lambda>a b. localeCompare env b a) (filter (isSessionFile env) files)
              in sessions_loop env chatsDir [] sessionFiles))"

text \<open>
  A sample project directory: two session records and a file that is none; of the two
  records only the second parses. File contents are identified with the file's path.
\<close>

definition sampleFs :: fsEnv where
  "sampleFs =
     \<lparr>projectTempDir = ''/tmp/p'',
      SESSION_FILE_PREFIX = ''session-'',
      path_join = (\<lambda>d f. d @ ''/'' @ f),
      readdir = (\<lambda>d. Inr [''session-1.json'', ''notes.txt'', ''session-2.json'']),
      readFile = (\<lambda>p. Inr p),
      JSON_parse = (\<lambda>raw. if raw = ''/tmp/p/chats/session-2.json''
                           then Inr (JObj [(''sessionId'', JStr ''s2''),
                                           (''messages'', JArr [JNull, JNull])])
                           else Inl (OtherError ''SyntaxError'')),
      localeCompare = (\<lambda>a b. int (length a) - int (length b))\<rparr>"

section \<open>agent.ts: the turn loop\<close>

text \<open>
  A stream event is a content delta, a tool-call request, or any other kind, which the loop
  passes through. The arguments of a requested call arrive as a string or as an object.
\<close>

record toolCallRequest =
  callId :: string
  call_name :: string
  call_args :: jsval

datatype event = ContentEvent string | ToolCallRequest toolCallRequest | OtherEvent string

record toolCallRequestInfo =
  req_callId :: string
  req_name :: string
  req_args :: jsval
  isClientInitiated :: bool
  prompt_id :: string

text \<open>
  A completion of the scheduler, with what the loop reads of it
  (\<^verbatim>\<open>call.response.responseParts\<close>) and the id of the request it answers.
\<close>

record completedToolCall =
  completed_callId :: string
  responseParts :: "part list"

text \<open>
  The collaborators of the loop, over a state \<open>'b\<close> of the backend: the initialization of
  the agent (authentication, session resume, skill and tool registration), the streaming call
  (the events it delivers, then possibly an error), the tool scheduler (which receives the
  calls and the registry scoped to the round's context), the accessors of the configuration
  and the clock, \<^verbatim>\<open>JSON.parse\<close>, and the two calls that install resolved instructions,
  \<^verbatim>\<open>config.setUserMemory\<close> and \<^verbatim>\<open>client.updateSystemInstruction\<close>, each of which can throw.
\<close>

record 'b core =
  initialize :: "'b \<Rightarrow> thrown option \<times> 'b"
  sendMessageStream :: "part list \<Rightarrow> string \<Rightarrow> 'b \<Rightarrow> (event list \<times> thrown option) \<times> 'b"
  scheduleAgentTools ::
    "toolCallRequestInfo list \<Rightarrow> unit sessionContext \<Rightarrow> 'b \<Rightarrow>
     (thrown + completedToolCall list) \<times> 'b"
  getHistory :: "'b \<Rightarrow> content list"
  getWorkingDir :: "'b \<Rightarrow> string"
  getSessionId :: "'b \<Rightarrow> string"
  now :: "'b \<Rightarrow> string"
  parseJSON :: "string \<Rightarrow> thrown + jsval"
  setUserMemory :: "string \<Rightarrow> 'b \<Rightarrow> thrown option \<times> 'b"
  updateSystemInstruction :: "'b \<Rightarrow> thrown option \<times> 'b"

text \<open>\<^verbatim>\<open>GeminiAgentOptions.instructions\<close>: a literal string or a function of the context.\<close>

datatype instructions = Literal string | Resolver "unit sessionContext \<Rightarrow> thrown + string"

text \<open>
  The calls the agent makes, recorded in order for the statements about the loop: an
  invocation of the instructions function (with whether it returned), the assignment
  \<^verbatim>\<open>this.instructionsLoaded = true\<close>, a streaming call with its request, a scheduler call with
  the tool calls handed over and the completions returned.
\<close>

datatype action =
    InstructionsCall bool
  | MarkLoaded
  | StreamCall "part list"
  | ScheduleCall "toolCallRequestInfo list" "completedToolCall list"

text \<open>
  The mutable state of a \<^verbatim>\<open>GeminiAgent\<close>: the flag \<^verbatim>\<open>instructionsLoaded\<close>, the user memory of
  its configuration, and the backend. \<open>trace\<close> is no field of the class; it collects the
  actions.
\<close>

record 'b agentState =
  instructionsLoaded :: bool
  userMemory :: string
  backend :: 'b
  trace :: "action list"

definition newAgent :: "instructions \<Rightarrow> 'b \<Rightarrow> 'b agentState" where
  "newAgent instr b =
     \<lparr>instructionsLoaded = False,
      userMemory = (case instr of Literal s \<Rightarrow> s | Resolver f \<Rightarrow> []),
      backend = b, trace = []\<rparr>"

datatype outcome = Done | Threw thrown | OutOfFuel

text \<open>The context literal built in \<^verbatim>\<open>sendStream\<close>, from the session id read at its start.\<close>

definition buildContext :: "'b core \<Rightarrow> string \<Rightarrow> 'b \<Rightarrow> unit sessionContext" where
  "buildContext c sid b =
     \<lparr>sessionId = sid, transcript = getHistory c b, cwd = getWorkingDir c b,
      timestamp = now c b, agent = ()\<rparr>"

fun extractToolCalls_loop ::
  "(string \<Rightarrow> thrown + jsval) \<Rightarrow> string \<Rightarrow> toolCallRequestInfo list \<Rightarrow> event list \<Rightarrow>
   thrown + toolCallRequestInfo list" where
  "extractToolCalls_loop parse sid calls [] = Inr calls"
| "extractToolCalls_loop parse sid calls (ev # evs) =
     (case ev of
        ToolCallRequest toolCall \<Rightarrow>
          (case (case call_args toolCall of JStr s \<Rightarrow> parse s | v \<Rightarrow> Inr v) of
             Inl e \<Rightarrow> Inl e
           | Inr args \<Rightarrow>
               extractToolCalls_loop parse sid
                 (calls @ [\<lparr>req_callId = callId toolCall, req_name = call_name toolCall,
                            req_args = args, isClientInitiated = False, prompt_id = sid\<rparr>])
                 evs)
      | _ \<Rightarrow> extractToolCalls_loop parse sid calls evs)"

definition extractToolCalls ::
  "'b core \<Rightarrow> event list \<Rightarrow> string \<Rightarrow> thrown + toolCallRequestInfo list" where
  "extractToolCalls c events sid = extractToolCalls_loop (parseJSON c) sid [] events"

text \<open>\<^verbatim>\<open>completedCalls.flatMap((call) => call.response.responseParts)\<close>\<close>

definition functionResponses :: "completedToolCall list \<Rightarrow> part list" where
  "functionResponses completedCalls = concat (map responseParts completedCalls)"

text \<open>
  \<^verbatim>\<open>resolveInstructions\<close>: nothing for a literal string; otherwise the function is awaited, the
  resolved text is stored with \<^verbatim>\<open>setUserMemory\<close>, the system instruction is updated, and only
  then is the flag set. A throw at any of the three steps leaves the flag as it was.
\<close>

definition resolveInstructions ::
  "'b core \<Rightarrow> instructions \<Rightarrow> unit sessionContext \<Rightarrow> 'b agentState \<Rightarrow>
   thrown option \<times> 'b agentState" where
  "resolveInstructions c instr ctx a =
     (case instr of
        Literal s \<Rightarrow> (None, a)
      | Resolver f \<Rightarrow>
          (case f ctx of
             Inl e \<Rightarrow> (Some e, a\<lparr>trace := trace a @ [InstructionsCall False]\<rparr>)
           | Inr resolved \<Rightarrow>
               (let a1 = a\<lparr>trace := trace a @ [InstructionsCall True]\<rparr>
                in case setUserMemory c resolved (backend a1) of
                     (Some e, b1) \<Rightarrow> (Some e, a1\<lparr>backend := b1\<rparr>)
                   | (None, b1) \<Rightarrow>
                       (case updateSystemInstruction c b1 of
                          (Some e, b2) \<Rightarrow>
                            (Some e, a1\<lparr>userMemory := resolved, backend := b2\<rparr>)
                        | (None, b2) \<Rightarrow>
                            (None, a1\<lparr>userMemory := resolved, backend := b2,
                                      instructionsLoaded := True,
                                      trace := trace a1 @ [MarkLoaded]\<rparr>)))))"

text \<open>
  One pass through the body of \<^verbatim>\<open>while (true)\<close>: the events it yields, and either how the
  generator ends (\<open>Inl\<close>) or the request of the next pass (\<open>Inr\<close>).
\<close>

definition roundStep ::
  "'b core \<Rightarrow> string \<Rightarrow> part list \<Rightarrow> 'b agentState \<Rightarrow>
   (event list \<times> (outcome + part list)) \<times> 'b agentState" where
  "roundStep c sid request a =
     (let ((events, err), b1) = sendMessageStream c request sid (backend a);
          a1 = a\<lparr>backend := b1, trace := trace a @ [StreamCall request]\<rparr>
      in case err of
           Some e \<Rightarrow> ((events, Inl (Threw e)), a1)
         | None \<Rightarrow>
             (case extractToolCalls c events sid of
                Inl e \<Rightarrow> ((events, Inl (Threw e)), a1)
              | Inr calls \<Rightarrow>
                  if length calls = 0 then ((events, Inl Done), a1)
                  else
                    (case scheduleAgentTools c calls (buildContext c sid b1) b1 of
                       (Inl e, b2) \<Rightarrow> ((events, Inl (Threw e)), a1\<lparr>backend := b2\<rparr>)
                     | (Inr completedCalls, b2) \<Rightarrow>
                         ((events, Inr (functionResponses completedCalls)),
                          a1\<lparr>backend := b2,
                             trace := trace a1 @ [ScheduleCall calls completedCalls]\<rparr>))))"

text \<open>The loop; \<open>OutOfFuel\<close> stands for a run that has not ended after the given passes.\<close>

fun sendLoop ::
  "nat \<Rightarrow> 'b core \<Rightarrow> string \<Rightarrow> part list \<Rightarrow> 'b agentState \<Rightarrow>
   (event list \<times> outcome) \<times> 'b agentState" where
  "sendLoop 0 c sid request a = (([], OutOfFuel), a)"
| "sendLoop (Suc n) c sid request a =
     (case roundStep c sid request a of
        ((events, Inl out), a1) \<Rightarrow> ((events, out), a1)
      | ((events, Inr request'), a1) \<Rightarrow>
          (case sendLoop n c sid request' a1 of
             ((events', out), a2) \<Rightarrow> ((events @ events', out), a2)))"

text \<open>
  \<^verbatim>\<open>sendStream\<close>: initialization, the resolution of the instructions while the flag is unset,
  then the loop on the prompt as one text part.
\<close>

definition sendStream ::
  "nat \<Rightarrow> 'b core \<Rightarrow> instructions \<Rightarrow> string \<Rightarrow> 'b agentState \<Rightarrow>
   (event list \<times> outcome) \<times> 'b agentState" where
  "sendStream fuel c instr prompt a =
     (case initialize c (backend a) of
        (Some e, b1) \<Rightarrow> (([], Threw e), a\<lparr>backend := b1\<rparr>)
      | (None, b1) \<Rightarrow>
          (let a1 = a\<lparr>backend := b1\<rparr>;
               sid = getSessionId c b1;
               request = [textPart prompt];
               (r, a2) = (if \<not> instructionsLoaded a1
                          then resolveInstructions c instr (buildContext c sid b1) a1
                          else (None, a1))
           in case r of
                Some e \<Rightarrow> (([], Threw e), a2)
              | None \<Rightarrow> sendLoop fuel c sid request a2))"


text \<open>The actions of instruction resolution: an invocation, or the setting of the flag.\<close>

fun isResolution :: "action \<Rightarrow> bool" where
  "isResolution (InstructionsCall ok) = True"
| "isResolution MarkLoaded = True"
| "isResolution x = False"

text \<open>A trace in which every request that follows a scheduler call is that call's responses.\<close>

fun fedBy :: "action list \<Rightarrow> bool" where
  "fedBy (ScheduleCall tcs cs # StreamCall req # rest) =
     (req = functionResponses cs \<and> fedBy (StreamCall req # rest))"
| "fedBy (x # rest) = fedBy rest"
| "fedBy [] = True"


text \<open>
  A sample backend, its state the number of streaming calls so far: the first stream requests
  one tool call, later streams deliver text; the scheduler answers the call with two parts.
\<close>

definition sampleCore :: "nat core" where
  "sampleCore =
     \<lparr>initialize = (\<lambda>b. (None, b)),
      sendMessageStream =
        (\<lambda>req sid b.
           ((if b = 0
             then [ToolCallRequest \<lparr>callId = ''c1'', call_name = ''read_image'', call_args = JObj []\<rparr>]
             else [ContentEvent ''ok''], None), Suc b)),
      scheduleAgentTools =
        (\<lambda>tcs ctx b.
           (Inr [\<lparr>completed_callId = ''c1'',
                  responseParts = [JObj [(''functionResponse'', JObj [(''id'', JStr ''c1'')])],
                                   JObj [(''inlineData'', JStr ''...'')]]\<rparr>], b)),
      getHistory = (\<lambda>b. []),
      getWorkingDir = (\<lambda>b. ''/''),
      getSessionId = (\<lambda>b. ''s''),
      now = (\<lambda>b. ''t''),
      parseJSON = (\<lambda>s. Inr (JObj [])),
      setUserMemory = (\<lambda>s b. (None, b)),
      updateSystemInstruction = (\<lambda>b. (None, b))\<rparr>"

text \<open>
  A tool whose action throws an error that is no \<^verbatim>\<open>ToolError\<close> and that does not opt in to
  \<^verbatim>\<open>sendErrorsToModel\<close>, and two schedulers that execute it for every call: one lets what
  the execution throws through, the other answers the call with an error completion. The
  sample backend with the first is \<open>propagatingCore\<close>, with the second \<open>catchingCore\<close>.
\<close>

definition failingTool :: "(jsval, unit) toolDef" where
  "failingTool =
     \<lparr>tool_name = ''read_image'', description = ''Read an image'', sendErrorsToModel = None,
      action = (\<lambda>params ctx. Inl (OtherError ''boom''))\<rparr>"

definition sampleScheduler ::
  "bool \<Rightarrow> toolCallRequestInfo list \<Rightarrow> unit sessionContext \<Rightarrow> nat \<Rightarrow>
   (thrown + completedToolCall list) \<times> nat" where
  "sampleScheduler catching calls ctx b =
     (case sdkTool_execute (\<lambda>v. Inr ''null'') failingTool JNull ctx of
        Inl e \<Rightarrow>
          if catching
          then (Inr (map (\<lambda>call. \<lparr>completed_callId = req_callId call,
                                    responseParts = [textPart (errorMessage e)]\<rparr>) calls), b)
          else (Inl e, b)
      | Inr res \<Rightarrow>
          (Inr (map (\<lambda>call. \<lparr>completed_callId = req_callId call,
                                responseParts = [textPart (llmContent res)]\<rparr>) calls), b))"

definition propagatingCore :: "nat core" where
  "propagatingCore = sampleCore\<lparr>scheduleAgentTools := sampleScheduler False\<rparr>"

definition catchingCore :: "nat core" where
  "catchingCore = sampleCore\<lparr>scheduleAgentTools := sampleScheduler True\<rparr>"


section \<open>Properties of history reconstruction\<close>

lemma responseParts_loop_eq:
  "responseParts_loop acc tcs =
     acc @ concat (map (\<lambda>tc. normalizeParts (tc_result tc))
                       (filter (\<lambda>tc. notNullish (tc_result tc)) tcs))"
  by (induction tcs arbitrary: acc) simp_all

lemma pushMessage_append: "pushMessage h msg = h @ pushMessage [] msg"
  by (simp add: pushMessage_def Let_def split: option.splits)

lemma history_loop_eq: "history_loop h ms = h @ concat (map (pushMessage []) ms)"
proof (induction ms arbitrary: h)
  case Nil
  show ?case by simp
next
  case (Cons m ms)
  show ?case using pushMessage_append [of h m] by (simp add: Cons.IH)
qed

lemma history_eq: "messageRecordsToHistory ms = concat (map (pushMessage []) ms)"
  by (simp add: messageRecordsToHistory_def history_loop_eq)

lemma history_insert:
  "messageRecordsToHistory (xs @ m # ys) =
     messageRecordsToHistory xs @ pushMessage [] m @ messageRecordsToHistory ys"
  by (simp add: history_eq)

lemma history_append:
  "messageRecordsToHistory (xs @ ys) = messageRecordsToHistory xs @ messageRecordsToHistory ys"
  by (simp add: history_eq)

lemma pushMessage_dropped: "dropped msg \<Longrightarrow> pushMessage h msg = h"
  by (simp add: pushMessage_def dropped_def)

lemma history_filter_dropped:
  "messageRecordsToHistory (filter (\<lambda>m. \<not> dropped m) ms) = messageRecordsToHistory ms"
  by (induction ms) (simp_all add: history_eq pushMessage_dropped)

lemma pushMessage_user:
  "msg_type msg = ''user'' \<Longrightarrow>
   pushMessage [] msg =
     (if normalizeParts (msg_content msg) = [] then []
      else [\<lparr>role = ''user'', parts = normalizeParts (msg_content msg)\<rparr>])"
  by (simp add: pushMessage_def)

lemma pushMessage_gemini:
  "msg_type msg = ''gemini'' \<Longrightarrow>
   pushMessage [] msg =
     (let tcs = (case toolCalls msg of None \<Rightarrow> [] | Some tcs \<Rightarrow> tcs);
          mps = normalizeParts (msg_content msg) @ map functionCallPart tcs;
          rps = concat (map (\<lambda>tc. normalizeParts (tc_result tc))
                            (filter (\<lambda>tc. notNullish (tc_result tc)) tcs))
      in (if mps = [] then [] else [\<lparr>role = ''model'', parts = mps\<rparr>]) @
         (if rps = [] then [] else [\<lparr>role = ''user'', parts = rps\<rparr>]))"
  by (auto simp: pushMessage_def modelParts_def Let_def responseParts_loop_eq list_ex_iff
           filter_empty_conv split: option.splits)

lemma normalizeItem_not_str: "\<not> isJStr (normalizeItem v)"
  by (cases v) (simp_all add: normalizeItem_def textPart_def)

lemma normalizeParts_not_str: "p \<in> set (normalizeParts c) \<Longrightarrow> \<not> isJStr p"
  by (cases c) (auto simp: normalizeParts_def textPart_def normalizeItem_not_str split: if_splits)

lemma modelParts_not_str: "p \<in> set (modelParts msg) \<Longrightarrow> \<not> isJStr p"
  by (auto simp: modelParts_def functionCallPart_def dest: normalizeParts_not_str
           split: option.splits)

lemma responseParts_not_str: "p \<in> set (responseParts_loop [] tcs) \<Longrightarrow> \<not> isJStr p"
  by (auto simp: responseParts_loop_eq dest: normalizeParts_not_str)

lemma pushMessage_good: "t \<in> set (pushMessage [] msg) \<Longrightarrow> goodTurn t"
  unfolding pushMessage_def goodTurn_def Let_def list_all_iff
  by (auto split: if_splits option.splits
           dest: normalizeParts_not_str modelParts_not_str responseParts_not_str)

lemma history_good: "t \<in> set (messageRecordsToHistory ms) \<Longrightarrow> goodTurn t"
  by (auto simp: history_eq dest: pushMessage_good)

lemma normalizeItem_id: "\<not> isJStr v \<Longrightarrow> normalizeItem v = v"
  by (cases v) (simp_all add: normalizeItem_def)

lemma normalizeParts_JArr: "\<forall>p\<in>set ps. \<not> isJStr p \<Longrightarrow> normalizeParts (JArr ps) = ps"
  by (simp add: normalizeParts_def normalizeItem_id map_idI)

lemma pushMessage_encodeTurn: "goodTurn t \<Longrightarrow> pushMessage [] (encodeTurn t) = [t]"
  by (auto simp: goodTurn_def list_all_iff pushMessage_def encodeTurn_def modelParts_def
                 normalizeParts_JArr)

lemma history_encode:
  "\<forall>t\<in>set ts. goodTurn t \<Longrightarrow> messageRecordsToHistory (encodeHistory ts) = ts"
  by (induction ts) (simp_all add: history_eq encodeHistory_def pushMessage_encodeTurn)

text \<open>
  C6 (as amended). Informational, warning and error entries never change the reconstructed
  history. A record whose other entries are exactly a user message followed by a model message
  with zero tool calls, each with content that normalizes to at least one part, reconstructs
  to exactly two turns: the user turn, then the model turn, and no response turn.
\<close>

theorem reconstruct_drops_annotations_pair:
  "(dropped m \<longrightarrow>
      messageRecordsToHistory (xs @ m # ys) = messageRecordsToHistory (xs @ ys)) \<and>
   (filter (\<lambda>m. \<not> dropped m) ms = [u, g] \<and>
    msg_type u = ''user'' \<and> msg_type g = ''gemini'' \<and>
    (toolCalls g = None \<or> toolCalls g = Some []) \<and>
    normalizeParts (msg_content u) \<noteq> [] \<and> normalizeParts (msg_content g) \<noteq> [] \<longrightarrow>
      messageRecordsToHistory ms =
        [\<lparr>role = ''user'', parts = normalizeParts (msg_content u)\<rparr>,
         \<lparr>role = ''model'', parts = normalizeParts (msg_content g)\<rparr>])"
proof (intro conjI impI)
  assume "dropped m"
  then show "messageRecordsToHistory (xs @ m # ys) = messageRecordsToHistory (xs @ ys)"
    by (simp add: history_eq pushMessage_dropped)
next
  assume a: "filter (\<lambda>m. \<not> dropped m) ms = [u, g] \<and>
    msg_type u = ''user'' \<and> msg_type g = ''gemini'' \<and>
    (toolCalls g = None \<or> toolCalls g = Some []) \<and>
    normalizeParts (msg_content u) \<noteq> [] \<and> normalizeParts (msg_content g) \<noteq> []"
  have "messageRecordsToHistory ms = messageRecordsToHistory [u, g]"
    using a history_filter_dropped [of ms] by simp
  also have "\<dots> = pushMessage [] u @ pushMessage [] g"
    by (simp add: history_eq)
  also have "\<dots> = [\<lparr>role = ''user'', parts = normalizeParts (msg_content u)\<rparr>,
                  \<lparr>role = ''model'', parts = normalizeParts (msg_content g)\<rparr>]"
    using a by (auto simp: pushMessage_user pushMessage_gemini)
  finally show "messageRecordsToHistory ms =
        [\<lparr>role = ''user'', parts = normalizeParts (msg_content u)\<rparr>,
         \<lparr>role = ''model'', parts = normalizeParts (msg_content g)\<rparr>]" .
qed

theorem reconstruct_drops_annotations_pair_witness:
  "dropped \<lparr>msg_type = ''info'', msg_content = JStr ''resumed'', toolCalls = None\<rparr> \<and>
   messageRecordsToHistory
     [\<lparr>msg_type = ''user'', msg_content = JStr ''hello'', toolCalls = None\<rparr>,
      \<lparr>msg_type = ''info'', msg_content = JStr ''resumed'', toolCalls = None\<rparr>,
      \<lparr>msg_type = ''gemini'', msg_content = JStr ''hi'', toolCalls = Some []\<rparr>] =
     [\<lparr>role = ''user'', parts = [textPart ''hello'']\<rparr>,
      \<lparr>role = ''model'', parts = [textPart ''hi'']\<rparr>] \<and>
   messageRecordsToHistory
     ([\<lparr>msg_type = ''user'', msg_content = JStr ''hello'', toolCalls = None\<rparr>] @
      \<lparr>msg_type = ''info'', msg_content = JStr ''resumed'', toolCalls = None\<rparr> #
      [\<lparr>msg_type = ''gemini'', msg_content = JStr ''hi'', toolCalls = Some []\<rparr>]) =
   messageRecordsToHistory
     ([\<lparr>msg_type = ''user'', msg_content = JStr ''hello'', toolCalls = None\<rparr>] @
      [\<lparr>msg_type = ''gemini'', msg_content = JStr ''hi'', toolCalls = Some []\<rparr>])"
  using reconstruct_drops_annotations_pair
    [of "\<lparr>msg_type = ''info'', msg_content = JStr ''resumed'', toolCalls = None\<rparr>"
        "[\<lparr>msg_type = ''user'', msg_content = JStr ''hello'', toolCalls = None\<rparr>]"
        "[\<lparr>msg_type = ''gemini'', msg_content = JStr ''hi'', toolCalls = Some []\<rparr>]"
        "[\<lparr>msg_type = ''user'', msg_content = JStr ''hello'', toolCalls = None\<rparr>,
          \<lparr>msg_type = ''info'', msg_content = JStr ''resumed'', toolCalls = None\<rparr>,
          \<lparr>msg_type = ''gemini'', msg_content = JStr ''hi'', toolCalls = Some []\<rparr>]"
        "\<lparr>msg_type = ''user'', msg_content = JStr ''hello'', toolCalls = None\<rparr>"
        "\<lparr>msg_type = ''gemini'', msg_content = JStr ''hi'', toolCalls = Some []\<rparr>"]
  by (auto simp: dropped_def normalizeParts_def)

text \<open>
  C6, the claim as stated, fails: a user message with empty text and a model message without
  tool calls reconstruct to one turn, not two.
\<close>

theorem reconstruct_pair_counterexample:
  "messageRecordsToHistory
     [\<lparr>msg_type = ''user'', msg_content = JStr '''', toolCalls = None\<rparr>,
      \<lparr>msg_type = ''gemini'', msg_content = JStr ''hi'', toolCalls = None\<rparr>] =
     [\<lparr>role = ''model'', parts = [textPart ''hi'']\<rparr>] \<and>
   length (messageRecordsToHistory
     [\<lparr>msg_type = ''user'', msg_content = JStr '''', toolCalls = None\<rparr>,
      \<lparr>msg_type = ''gemini'', msg_content = JStr ''hi'', toolCalls = None\<rparr>]) \<noteq> 2"
  by (simp add: messageRecordsToHistory_def pushMessage_def modelParts_def normalizeParts_def)

text \<open>
  C7 (as amended). For a model entry, the normalized results of the tool calls that carry a
  non-null result are aggregated, in tool-call order, into one user-role turn placed directly
  after the entry's model turn, provided the aggregate has at least one part. If no tool call
  carries a non-null result (or the results normalize to nothing) no response turn is emitted,
  and the function-call parts of the model turn stay without a response.
\<close>

theorem gemini_entry_response_turn:
  assumes "msg_type msg = ''gemini''"
    and "tcs = (case toolCalls msg of None \<Rightarrow> [] | Some cs \<Rightarrow> cs)"
    and "mps = normalizeParts (msg_content msg) @ map functionCallPart tcs"
    and "rps = concat (map (\<lambda>tc. normalizeParts (tc_result tc))
                           (filter (\<lambda>tc. notNullish (tc_result tc)) tcs))"
  shows "(rps \<noteq> [] \<longrightarrow>
            messageRecordsToHistory (xs @ msg # ys) =
              messageRecordsToHistory xs @
              [\<lparr>role = ''model'', parts = mps\<rparr>, \<lparr>role = ''user'', parts = rps\<rparr>] @
              messageRecordsToHistory ys) \<and>
         (rps = [] \<longrightarrow>
            messageRecordsToHistory (xs @ msg # ys) =
              messageRecordsToHistory xs @
              (if mps = [] then [] else [\<lparr>role = ''model'', parts = mps\<rparr>]) @
              messageRecordsToHistory ys) \<and>
         ((\<forall>tc\<in>set tcs. \<not> notNullish (tc_result tc)) \<longrightarrow> rps = [])"
proof -
  have push: "pushMessage [] msg =
      (if mps = [] then [] else [\<lparr>role = ''model'', parts = mps\<rparr>]) @
      (if rps = [] then [] else [\<lparr>role = ''user'', parts = rps\<rparr>])"
    using pushMessage_gemini [OF assms(1)] unfolding assms(2-4) Let_def .
  have nonempty: "rps \<noteq> [] \<Longrightarrow> mps \<noteq> []"
    using assms(3,4) by auto
  have none: "(\<forall>tc\<in>set tcs. \<not> notNullish (tc_result tc)) \<Longrightarrow> rps = []"
    using assms(4) by (simp add: filter_empty_conv [THEN iffD2])
  show ?thesis
    using push nonempty none by (auto simp: history_insert)
qed

theorem gemini_entry_response_turn_witness:
  "messageRecordsToHistory
     ([] @ \<lparr>msg_type = ''gemini'', msg_content = JStr ''checking'',
            toolCalls = Some [\<lparr>tc_id = ''c1'', tc_name = ''save_note'', tc_args = JObj [],
                               tc_result = JStr ''saved''\<rparr>,
                              \<lparr>tc_id = ''c2'', tc_name = ''lookup'', tc_args = JObj [],
                               tc_result = JNull\<rparr>]\<rparr> # []) =
     [\<lparr>role = ''model'',
       parts = [textPart ''checking'',
                functionCallPart \<lparr>tc_id = ''c1'', tc_name = ''save_note'', tc_args = JObj [],
                                  tc_result = JStr ''saved''\<rparr>,
                functionCallPart \<lparr>tc_id = ''c2'', tc_name = ''lookup'', tc_args = JObj [],
                                  tc_result = JNull\<rparr>]\<rparr>,
      \<lparr>role = ''user'', parts = [textPart ''saved'']\<rparr>]"
  using gemini_entry_response_turn
    [of "\<lparr>msg_type = ''gemini'', msg_content = JStr ''checking'',
           toolCalls = Some [\<lparr>tc_id = ''c1'', tc_name = ''save_note'', tc_args = JObj [],
                              tc_result = JStr ''saved''\<rparr>,
                             \<lparr>tc_id = ''c2'', tc_name = ''lookup'', tc_args = JObj [],
                              tc_result = JNull\<rparr>]\<rparr>"
        "[\<lparr>tc_id = ''c1'', tc_name = ''save_note'', tc_args = JObj [],
           tc_result = JStr ''saved''\<rparr>,
          \<lparr>tc_id = ''c2'', tc_name = ''lookup'', tc_args = JObj [], tc_result = JNull\<rparr>]"
        "[textPart ''checking'',
          functionCallPart \<lparr>tc_id = ''c1'', tc_name = ''save_note'', tc_args = JObj [],
                            tc_result = JStr ''saved''\<rparr>,
          functionCallPart \<lparr>tc_id = ''c2'', tc_name = ''lookup'', tc_args = JObj [],
                            tc_result = JNull\<rparr>]"
        "[textPart ''saved'']" "[]" "[]"]
  by (simp add: normalizeParts_def messageRecordsToHistory_def)

text \<open>
  C7, the claim as stated, fails: a tool call whose result is the empty string carries a
  non-null result, yet no response turn follows the model turn.
\<close>

theorem gemini_entry_response_turn_counterexample:
  "notNullish (tc_result \<lparr>tc_id = ''c1'', tc_name = ''touch'', tc_args = JObj [],
                          tc_result = JStr ''''\<rparr>) \<and>
   messageRecordsToHistory
     [\<lparr>msg_type = ''gemini'', msg_content = JStr ''running'',
       toolCalls = Some [\<lparr>tc_id = ''c1'', tc_name = ''touch'', tc_args = JObj [],
                          tc_result = JStr ''''\<rparr>]\<rparr>] =
     [\<lparr>role = ''model'',
       parts = [textPart ''running'',
                functionCallPart \<lparr>tc_id = ''c1'', tc_name = ''touch'', tc_args = JObj [],
                                  tc_result = JStr ''''\<rparr>]\<rparr>]"
  by (simp add: messageRecordsToHistory_def pushMessage_def modelParts_def normalizeParts_def)

text \<open>
  C9. Encoding the reconstructed turns back into the record schema and reconstructing again
  gives the turns of the first reconstruction; the informational, warning and error entries
  of the original record are the only thing the round trip loses.
\<close>

theorem reconstruct_reencode_idempotent:
  "messageRecordsToHistory (encodeHistory (messageRecordsToHistory ms)) =
     messageRecordsToHistory ms"
  by (rule history_encode) (simp add: history_good)

text \<open>
  C10. Every turn of the reconstructed history has at least one part. A user entry whose
  content normalizes to no part adds no turn, and neither does a model entry with no content
  part and no tool call.
\<close>

theorem reconstructed_turns_nonempty:
  "(\<forall>t\<in>set (messageRecordsToHistory ms). parts t \<noteq> []) \<and>
   (msg_type msg = ''user'' \<and> normalizeParts (msg_content msg) = [] \<longrightarrow>
      messageRecordsToHistory (xs @ msg # ys) = messageRecordsToHistory (xs @ ys)) \<and>
   (msg_type msg = ''gemini'' \<and> normalizeParts (msg_content msg) = [] \<and>
    (toolCalls msg = None \<or> toolCalls msg = Some []) \<longrightarrow>
      messageRecordsToHistory (xs @ msg # ys) = messageRecordsToHistory (xs @ ys))"
proof (intro conjI ballI impI)
  fix t assume "t \<in> set (messageRecordsToHistory ms)"
  then have "goodTurn t" by (rule history_good)
  then show "parts t \<noteq> []" by (simp add: goodTurn_def)
next
  assume "msg_type msg = ''user'' \<and> normalizeParts (msg_content msg) = []"
  then have "pushMessage [] msg = []" by (simp add: pushMessage_user)
  then show "messageRecordsToHistory (xs @ msg # ys) = messageRecordsToHistory (xs @ ys)"
    by (simp add: history_eq)
next
  assume "msg_type msg = ''gemini'' \<and> normalizeParts (msg_content msg) = [] \<and>
    (toolCalls msg = None \<or> toolCalls msg = Some [])"
  then have "pushMessage [] msg = []" by (auto simp: pushMessage_gemini)
  then show "messageRecordsToHistory (xs @ msg # ys) = messageRecordsToHistory (xs @ ys)"
    by (simp add: history_eq)
qed

theorem reconstructed_turns_nonempty_witness:
  "messageRecordsToHistory
     [\<lparr>msg_type = ''user'', msg_content = JStr ''hello'', toolCalls = None\<rparr>] =
     [\<lparr>role = ''user'', parts = [textPart ''hello'']\<rparr>] \<and>
   messageRecordsToHistory
     ([] @ \<lparr>msg_type = ''user'', msg_content = JArr [], toolCalls = None\<rparr> # []) = [] \<and>
   messageRecordsToHistory
     ([] @ \<lparr>msg_type = ''gemini'', msg_content = JUndefined, toolCalls = Some []\<rparr> # []) = []"
  using reconstructed_turns_nonempty
    [of "[\<lparr>msg_type = ''user'', msg_content = JStr ''hello'', toolCalls = None\<rparr>]"
        "\<lparr>msg_type = ''user'', msg_content = JArr [], toolCalls = None\<rparr>" "[]" "[]"]
    reconstructed_turns_nonempty
    [of "[]" "\<lparr>msg_type = ''gemini'', msg_content = JUndefined, toolCalls = Some []\<rparr>" "[]" "[]"]
  by (simp add: normalizeParts_def messageRecordsToHistory_def pushMessage_def)

section \<open>Properties of tool execution and of the sub-agent bridge\<close>

text \<open>
  C3 (as amended). When the action of a tool throws: if the tool declares
  \<^verbatim>\<open>sendErrorsToModel: true\<close> or the thrown error is a \<^verbatim>\<open>ToolError\<close>, the execution returns a
  tool result whose model-visible and display contents are the message of the error (for a
  thrown value that is no \<^verbatim>\<open>Error\<close>, its string rendering) prefixed with \<^verbatim>\<open>Error: \<close> and whose
  error field holds the message; every other thrown error is rethrown by the execution to its
  caller. The loop has no handler of its own: when the call of the scheduler fails with that
  error, the send ends with it after the current streaming round and no further round runs.
\<close>

theorem execute_error_conversion:
  assumes "action def params ctx = Inl e"
  shows "(e = ToolError m \<or>
          (sendErrorsToModel def = Some True \<and> (e = OtherError m \<or> e = NonError m)) \<longrightarrow>
            sdkTool_execute stringify def params ctx =
              Inr \<lparr>llmContent = ''Error: '' @ m, returnDisplay = ''Error: '' @ m,
                   error = Some m\<rparr>) \<and>
         (sendErrorsToModel def \<noteq> Some True \<and> (\<forall>m'. e \<noteq> ToolError m') \<longrightarrow>
            sdkTool_execute stringify def params ctx = Inl e) \<and>
         (sendMessageStream c request sid (backend a) = ((events, None), b1) \<and>
          extractToolCalls c events sid = Inr calls \<and> calls \<noteq> [] \<and>
          scheduleAgentTools c calls (buildContext c sid b1) b1 = (Inl e, b2) \<longrightarrow>
            sendLoop (Suc n) c sid request a =
              ((events, Threw e), a\<lparr>backend := b2, trace := trace a @ [StreamCall request]\<rparr>))"
proof (intro conjI impI)
  assume h: "e = ToolError m \<or>
    (sendErrorsToModel def = Some True \<and> (e = OtherError m \<or> e = NonError m))"
  then show "sdkTool_execute stringify def params ctx =
      Inr \<lparr>llmContent = ''Error: '' @ m, returnDisplay = ''Error: '' @ m, error = Some m\<rparr>"
    using assms by (auto simp: sdkTool_execute_def execute_def Let_def)
next
  assume h: "sendErrorsToModel def \<noteq> Some True \<and> (\<forall>m'. e \<noteq> ToolError m')"
  then have "\<not> isToolError e" by (cases e) simp_all
  moreover have "\<not> (case sendErrorsToModel def of None \<Rightarrow> False | Some b \<Rightarrow> b)"
    using h by (cases "sendErrorsToModel def") auto
  ultimately show "sdkTool_execute stringify def params ctx = Inl e"
    using assms by (simp add: sdkTool_execute_def execute_def)
next
  assume "sendMessageStream c request sid (backend a) = ((events, None), b1) \<and>
    extractToolCalls c events sid = Inr calls \<and> calls \<noteq> [] \<and>
    scheduleAgentTools c calls (buildContext c sid b1) b1 = (Inl e, b2)"
  then show "sendLoop (Suc n) c sid request a =
      ((events, Threw e), a\<lparr>backend := b2, trace := trace a @ [StreamCall request]\<rparr>)"
    by (simp add: roundStep_def Let_def)
qed

theorem execute_error_conversion_witness:
  "sdkTool_execute (\<lambda>v. Inr ''null'')
     \<lparr>tool_name = ''save_note'', description = ''Save a note'', sendErrorsToModel = None,
      action = (\<lambda>(p::jsval) (c::unit sessionContext). Inl (ToolError ''disk full''))\<rparr>
     JNull \<lparr>sessionId = ''s'', transcript = [], cwd = ''/'', timestamp = ''t'', agent = ()\<rparr> =
     Inr \<lparr>llmContent = ''Error: disk full'', returnDisplay = ''Error: disk full'',
          error = Some ''disk full''\<rparr> \<and>
   sdkTool_execute (\<lambda>v. Inr ''null'')
     \<lparr>tool_name = ''save_note'', description = ''Save a note'', sendErrorsToModel = Some True,
      action = (\<lambda>(p::jsval) (c::unit sessionContext). Inl (OtherError ''boom''))\<rparr>
     JNull \<lparr>sessionId = ''s'', transcript = [], cwd = ''/'', timestamp = ''t'', agent = ()\<rparr> =
     Inr \<lparr>llmContent = ''Error: boom'', returnDisplay = ''Error: boom'',
          error = Some ''boom''\<rparr> \<and>
   sdkTool_execute (\<lambda>v. Inr ''null'')
     \<lparr>tool_name = ''save_note'', description = ''Save a note'', sendErrorsToModel = Some True,
      action = (\<lambda>(p::jsval) (c::unit sessionContext). Inl (NonError ''42''))\<rparr>
     JNull \<lparr>sessionId = ''s'', transcript = [], cwd = ''/'', timestamp = ''t'', agent = ()\<rparr> =
     Inr \<lparr>llmContent = ''Error: 42'', returnDisplay = ''Error: 42'', error = Some ''42''\<rparr> \<and>
   sdkTool_execute (\<lambda>v. Inr ''null'') failingTool JNull
     \<lparr>sessionId = ''s'', transcript = [], cwd = ''/'', timestamp = ''t'', agent = ()\<rparr> =
     Inl (OtherError ''boom'') \<and>
   fst (sendLoop (Suc (Suc 0)) propagatingCore ''s'' [textPart ''fetch it'']
          (newAgent (Literal ''be brief'') 0)) =
     ([ToolCallRequest \<lparr>callId = ''c1'', call_name = ''read_image'', call_args = JObj []\<rparr>],
      Threw (OtherError ''boom''))"
proof -
  let ?ctx = "\<lparr>sessionId = ''s'', transcript = [], cwd = ''/'', timestamp = ''t'', agent = ()\<rparr>"
  let ?tool = "\<lambda>flag err. \<lparr>tool_name = ''save_note'', description = ''Save a note'',
      sendErrorsToModel = flag,
      action = (\<lambda>(p::jsval) (c::unit sessionContext). (Inl err :: thrown + jsval))\<rparr>"
  have w1: "sdkTool_execute (\<lambda>v. Inr ''null'') (?tool None (ToolError ''disk full'')) JNull ?ctx =
      Inr \<lparr>llmContent = ''Error: disk full'', returnDisplay = ''Error: disk full'',
           error = Some ''disk full''\<rparr>"
    using execute_error_conversion
      [where def = "?tool None (ToolError ''disk full'')" and params = JNull and ctx = "?ctx"
         and e = "ToolError ''disk full''" and m = "''disk full''"
         and stringify = "\<lambda>v. Inr ''null''", THEN conjunct1]
    by simp
  have w2: "sdkTool_execute (\<lambda>v. Inr ''null'') (?tool (Some True) (OtherError ''boom'')) JNull ?ctx =
      Inr \<lparr>llmContent = ''Error: boom'', returnDisplay = ''Error: boom'', error = Some ''boom''\<rparr>"
    using execute_error_conversion
      [where def = "?tool (Some True) (OtherError ''boom'')" and params = JNull and ctx = "?ctx"
         and e = "OtherError ''boom''" and m = "''boom''"
         and stringify = "\<lambda>v. Inr ''null''", THEN conjunct1]
    by simp
  have w3: "sdkTool_execute (\<lambda>v. Inr ''null'') (?tool (Some True) (NonError ''42'')) JNull ?ctx =
      Inr \<lparr>llmContent = ''Error: 42'', returnDisplay = ''Error: 42'', error = Some ''42''\<rparr>"
    using execute_error_conversion
      [where def = "?tool (Some True) (NonError ''42'')" and params = JNull and ctx = "?ctx"
         and e = "NonError ''42''" and m = "''42''"
         and stringify = "\<lambda>v. Inr ''null''", THEN conjunct1]
    by simp
  have act: "action failingTool JNull ?ctx = Inl (OtherError ''boom'')"
    by (simp add: failingTool_def)
  have w4: "sdkTool_execute (\<lambda>v. Inr ''null'') failingTool JNull ?ctx = Inl (OtherError ''boom'')"
    using execute_error_conversion
      [where def = failingTool and params = JNull and ctx = "?ctx"
         and e = "OtherError ''boom''" and stringify = "\<lambda>v. Inr ''null''",
       OF act, THEN conjunct2, THEN conjunct1]
    by (simp add: failingTool_def)
  have round: "sendMessageStream propagatingCore [textPart ''fetch it''] ''s''
        (backend (newAgent (Literal ''be brief'') (0::nat))) =
        (([ToolCallRequest \<lparr>callId = ''c1'', call_name = ''read_image'', call_args = JObj []\<rparr>],
          None), Suc 0) \<and>
      extractToolCalls propagatingCore
        [ToolCallRequest \<lparr>callId = ''c1'', call_name = ''read_image'', call_args = JObj []\<rparr>]
        ''s'' =
        Inr [\<lparr>req_callId = ''c1'', req_name = ''read_image'', req_args = JObj [],
              isClientInitiated = False, prompt_id = ''s''\<rparr>] \<and>
      [\<lparr>req_callId = ''c1'', req_name = ''read_image'', req_args = JObj [],
        isClientInitiated = False, prompt_id = ''s''\<rparr>] \<noteq> [] \<and>
      scheduleAgentTools propagatingCore
        [\<lparr>req_callId = ''c1'', req_name = ''read_image'', req_args = JObj [],
          isClientInitiated = False, prompt_id = ''s''\<rparr>]
        (buildContext propagatingCore ''s'' (Suc 0)) (Suc 0) =
        (Inl (OtherError ''boom''), Suc 0)"
    by (simp add: propagatingCore_def sampleCore_def newAgent_def extractToolCalls_def
                  sampleScheduler_def sdkTool_execute_def execute_def failingTool_def)
  have w5: "sendLoop (Suc (Suc 0)) propagatingCore ''s'' [textPart ''fetch it'']
        (newAgent (Literal ''be brief'') 0) =
      (([ToolCallRequest \<lparr>callId = ''c1'', call_name = ''read_image'', call_args = JObj []\<rparr>],
        Threw (OtherError ''boom'')),
       (newAgent (Literal ''be brief'') 0)
         \<lparr>backend := Suc 0,
          trace := trace (newAgent (Literal ''be brief'') (0::nat)) @
                   [StreamCall [textPart ''fetch it'']]\<rparr>)"
    using execute_error_conversion
      [where def = failingTool and params = JNull and ctx = "?ctx"
         and e = "OtherError ''boom''" and c = propagatingCore
         and request = "[textPart ''fetch it'']" and sid = "''s''"
         and a = "newAgent (Literal ''be brief'') 0"
         and events = "[ToolCallRequest \<lparr>callId = ''c1'', call_name = ''read_image'',
                                         call_args = JObj []\<rparr>]"
         and ?b1.0 = "Suc 0" and ?b2.0 = "Suc 0" and n = "Suc 0"
         and calls = "[\<lparr>req_callId = ''c1'', req_name = ''read_image'', req_args = JObj [],
                        isClientInitiated = False, prompt_id = ''s''\<rparr>]",
       OF act, THEN conjunct2, THEN conjunct2, THEN mp, OF round] .
  show ?thesis
    using w1 w2 w3 w4 w5 by simp
qed

text \<open>
  C3, the claim as stated, fails: the execution rethrows the error of the tool, but with a
  scheduler that answers a failed execution with an error completion the turn is not aborted;
  the send runs its second round and ends normally.
\<close>

theorem execute_error_conversion_counterexample:
  "sdkTool_execute (\<lambda>v. Inr ''null'') failingTool JNull
     \<lparr>sessionId = ''s'', transcript = [], cwd = ''/'', timestamp = ''t'', agent = ()\<rparr> =
     Inl (OtherError ''boom'') \<and>
   fst (sendStream (Suc (Suc 0)) catchingCore (Literal ''be brief'') ''fetch it''
          (newAgent (Literal ''be brief'') 0)) =
     ([ToolCallRequest \<lparr>callId = ''c1'', call_name = ''read_image'', call_args = JObj []\<rparr>,
       ContentEvent ''ok''], Done)"
  by (simp add: sendStream_def newAgent_def catchingCore_def sampleCore_def roundStep_def
                extractToolCalls_def functionResponses_def buildContext_def
                resolveInstructions_def sampleScheduler_def sdkTool_execute_def execute_def
                failingTool_def Let_def)

text \<open>
  C4. The action of a wrapped local sub-agent returns the result string of the run exactly
  when the run ended with the reached-its-goal reason. A run that ended with any other reason
  makes the action throw a \<^verbatim>\<open>ToolError\<close> whose message contains the name of the sub-agent and
  the reason code.
\<close>

theorem local_agent_goal_only:
  assumes "config1 = registerRuntimeModelConfig (agent_name def @ ''-config'')
             (if modelConfig_model def = ''inherit'' then activeModel (agent ctx)
              else modelConfig_model def) (agent ctx)"
  shows "(action (wrapLocalAgentAsTool run def) params ctx = Inr (JStr s) \<longleftrightarrow>
            (\<exists>res. run def config1 params = Inr res \<and> terminate_reason res = GOAL \<and>
                   result res = s)) \<and>
         (run def config1 params = Inr res \<and> terminate_reason res \<noteq> GOAL \<longrightarrow>
            (\<exists>message.
               action (wrapLocalAgentAsTool run def) params ctx = Inl (ToolError message) \<and>
               message = ''Sub-agent '' @ [CHR 0x22] @ agent_name def @ [CHR 0x22] @
                         '' terminated: '' @ terminate_reason res \<and>
               sublist (agent_name def) message \<and> sublist (terminate_reason res) message))"
proof -
  have sub1: "sublist (agent_name def)
      (''Sub-agent '' @ [CHR 0x22] @ agent_name def @ [CHR 0x22] @ '' terminated: '' @ r)" for r
    unfolding sublist_def
    by (rule exI [of _ "''Sub-agent '' @ [CHR 0x22]"],
        rule exI [of _ "[CHR 0x22] @ '' terminated: '' @ r"]) simp
  have sub2: "sublist r
      (''Sub-agent '' @ [CHR 0x22] @ agent_name def @ [CHR 0x22] @ '' terminated: '' @ r)" for r
    unfolding sublist_def
    by (rule exI [of _ "''Sub-agent '' @ [CHR 0x22] @ agent_name def @ [CHR 0x22] @
                        '' terminated: ''"],
        rule exI [of _ "[]"]) simp
  have act: "action (wrapLocalAgentAsTool run def) params ctx =
      (case run def config1 params of
         Inl e \<Rightarrow> Inl e
       | Inr r \<Rightarrow>
           if terminate_reason r \<noteq> GOAL
           then Inl (ToolError (''Sub-agent '' @ [CHR 0x22] @ agent_name def @ [CHR 0x22] @
                                '' terminated: '' @ terminate_reason r))
           else Inr (JStr (result r)))"
    unfolding wrapLocalAgentAsTool_def executeLocalAgent_def assms
    by (simp add: Let_def split: sum.splits)
  show ?thesis
    unfolding act using sub1 sub2 by (auto split: sum.splits)
qed

theorem local_agent_goal_only_witness:
  "action (wrapLocalAgentAsTool
             (\<lambda>d c (p::jsval). Inr \<lparr>terminate_reason = ''MAX_TURNS'', result = ''partial''\<rparr>)
             \<lparr>agent_name = ''researcher'', agent_description = ''Looks things up'',
              modelConfig_model = ''inherit''\<rparr>)
     JNull
     \<lparr>sessionId = ''s'', transcript = [], cwd = ''/'', timestamp = ''t'',
      agent = \<lparr>activeModel = ''m'', runtimeModelConfigs = []\<rparr>\<rparr> =
     Inl (ToolError (''Sub-agent '' @ [CHR 0x22] @ ''researcher'' @ [CHR 0x22] @
                     '' terminated: MAX_TURNS'')) \<and>
   action (wrapLocalAgentAsTool
             (\<lambda>d c (p::jsval). Inr \<lparr>terminate_reason = ''GOAL'', result = ''done''\<rparr>)
             \<lparr>agent_name = ''researcher'', agent_description = ''Looks things up'',
              modelConfig_model = ''inherit''\<rparr>)
     JNull
     \<lparr>sessionId = ''s'', transcript = [], cwd = ''/'', timestamp = ''t'',
      agent = \<lparr>activeModel = ''m'', runtimeModelConfigs = []\<rparr>\<rparr> = Inr (JStr ''done'')"
  using local_agent_goal_only
    [of "registerRuntimeModelConfig ''researcher-config'' ''m''
           \<lparr>activeModel = ''m'', runtimeModelConfigs = []\<rparr>"
        "\<lparr>agent_name = ''researcher'', agent_description = ''Looks things up'',
          modelConfig_model = ''inherit''\<rparr>"
        "\<lparr>sessionId = ''s'', transcript = [], cwd = ''/'', timestamp = ''t'',
          agent = \<lparr>activeModel = ''m'', runtimeModelConfigs = []\<rparr>\<rparr>"
        "\<lambda>d c (p::jsval). Inr \<lparr>terminate_reason = ''MAX_TURNS'', result = ''partial''\<rparr>"
        JNull "''partial''" "\<lparr>terminate_reason = ''MAX_TURNS'', result = ''partial''\<rparr>"]
    local_agent_goal_only
    [of "registerRuntimeModelConfig ''researcher-config'' ''m''
           \<lparr>activeModel = ''m'', runtimeModelConfigs = []\<rparr>"
        "\<lparr>agent_name = ''researcher'', agent_description = ''Looks things up'',
          modelConfig_model = ''inherit''\<rparr>"
        "\<lparr>sessionId = ''s'', transcript = [], cwd = ''/'', timestamp = ''t'',
          agent = \<lparr>activeModel = ''m'', runtimeModelConfigs = []\<rparr>\<rparr>"
        "\<lambda>d c (p::jsval). Inr \<lparr>terminate_reason = ''GOAL'', result = ''done''\<rparr>"
        JNull "''done''" "\<lparr>terminate_reason = ''GOAL'', result = ''done''\<rparr>"]
  by (simp add: GOAL_def)

lemma join_Cons: "join sep (x # xs) = x @ concat (map ((@) sep) xs)"
  by (induction xs arbitrary: x) simp_all

lemma text_parts_eq: "map partText (filter isTextPart ps) = [t. TextPart t \<leftarrow> ps]"
proof (induction ps)
  case Nil
  show ?case by simp
next
  case (Cons p ps)
  then show ?case by (cases p) simp_all
qed

lemma join_case:
  "join sep ts = (case ts of [] \<Rightarrow> [] | t # r \<Rightarrow> t @ concat (map ((@) sep) r))"
  by (cases ts) (simp_all add: join_Cons)

lemma extractTextFromParts_eq:
  "extractTextFromParts ps =
     (case [t. TextPart t \<leftarrow> ps] of [] \<Rightarrow> [] | t # ts \<Rightarrow> t @ concat (map ((@) [CHR 0x0A]) ts))"
  unfolding extractTextFromParts_def text_parts_eq by (rule join_case)

lemma no_text_parts: "(\<forall>p\<in>set ps. \<forall>t. p \<noteq> TextPart t) \<Longrightarrow> [t. TextPart t \<leftarrow> ps] = []"
proof (induction ps)
  case Nil
  show ?case by simp
next
  case (Cons p ps)
  then show ?case by (cases p) simp_all
qed

text \<open>
  C5. For a direct message and for a task with a status message alike, the result of a remote
  sub-agent is the texts of the text parts, in order, joined with newlines. Without any text
  part, and for a task without status message, it is the empty string; whenever the remote
  call returns a response the action returns a string and raises nothing.
\<close>

theorem remote_result_text:
  "(let joined = (\<lambda>ps. case [t. TextPart t \<leftarrow> ps] of
                         [] \<Rightarrow> []
                       | t # ts \<Rightarrow> t @ concat (map ((@) [CHR 0x0A]) ts))
    in extractTextFromResult (Message m) = joined (message_parts m) \<and>
       extractTextFromResult (Task (Some \<lparr>status_message = Some m\<rparr>)) = joined (message_parts m) \<and>
       extractTextFromResult (Task (Some \<lparr>status_message = None\<rparr>)) = [] \<and>
       extractTextFromResult (Task None) = [] \<and>
       ((\<forall>p\<in>set (message_parts m). \<forall>t. p \<noteq> TextPart t) \<longrightarrow>
          extractTextFromResult (Message m) = [] \<and>
          extractTextFromResult (Task (Some \<lparr>status_message = Some m\<rparr>)) = [])) \<and>
   (sendMessage (remoteQuery toStr stringify params) = Inr res \<longrightarrow>
      remoteAgentAction toStr stringify sendMessage params = Inr (extractTextFromResult res))"
  by (simp add: Let_def extractTextFromResult_def extractTextFromParts_eq remoteAgentAction_def
                no_text_parts)

theorem remote_result_text_witness:
  "extractTextFromResult
     (Message \<lparr>message_parts = [TextPart ''a'', DataPart JNull, TextPart ''b'']\<rparr>) =
     ''a'' @ [CHR 0x0A] @ ''b'' \<and>
   extractTextFromResult (Message \<lparr>message_parts = [DataPart JNull]\<rparr>) = [] \<and>
   extractTextFromResult (Task (Some \<lparr>status_message = Some \<lparr>message_parts = []\<rparr>\<rparr>)) = [] \<and>
   remoteAgentAction (\<lambda>v. ''q'') (\<lambda>v. ''{}'')
     (\<lambda>q. Inr (Task (Some \<lparr>status_message = None\<rparr>))) (JObj []) = Inr []"
  using remote_result_text
    [of "\<lparr>message_parts = [TextPart ''a'', DataPart JNull, TextPart ''b'']\<rparr>"
        "\<lambda>q. Inr (Task (Some \<lparr>status_message = None\<rparr>))" "\<lambda>v. ''q''" "\<lambda>v. ''{}''" "JObj []"
        "Task (Some \<lparr>status_message = None\<rparr>)"]
    remote_result_text
    [of "\<lparr>message_parts = [DataPart JNull]\<rparr>"
        "\<lambda>q. Inr (Task (Some \<lparr>status_message = None\<rparr>))" "\<lambda>v. ''q''" "\<lambda>v. ''{}''" "JObj []"
        "Task (Some \<lparr>status_message = None\<rparr>)"]
    remote_result_text
    [of "\<lparr>message_parts = []\<rparr>"
        "\<lambda>q. Inr (Task (Some \<lparr>status_message = None\<rparr>))" "\<lambda>v. ''q''" "\<lambda>v. ''{}''" "JObj []"
        "Task (Some \<lparr>status_message = None\<rparr>)"]
  by (simp add: Let_def)

section \<open>Properties of the session listing\<close>

lemma mset_insort_cmp: "mset (insort_cmp cmp x ys) = add_mset x (mset ys)"
  by (induction ys) simp_all

lemma mset_sort_cmp: "mset (sort_cmp cmp xs) = mset xs"
  by (induction xs) (simp_all add: sort_cmp_def mset_insort_cmp)

lemma set_insort_cmp: "set (insort_cmp cmp x ys) = insert x (set ys)"
  by (induction ys) auto

lemma sorted_insort_cmp:
  assumes total: "\<forall>a b. cmp a b \<le> 0 \<or> cmp b a \<le> 0"
    and trans: "\<forall>a b c. cmp a b \<le> 0 \<and> cmp b c \<le> 0 \<longrightarrow> cmp a c \<le> 0"
  shows "sorted_wrt (\<lambda>a b. cmp a b \<le> 0) ys \<Longrightarrow>
         sorted_wrt (\<lambda>a b. cmp a b \<le> 0) (insort_cmp cmp x ys)"
proof (induction ys)
  case Nil
  show ?case by simp
next
  case (Cons y ys)
  show ?case
  proof (cases "cmp x y \<le> 0")
    case True
    have "\<forall>z\<in>set ys. cmp y z \<le> 0"
      using Cons.prems by simp
    then have "\<forall>z\<in>set ys. cmp x z \<le> 0"
      using True trans by blast
    with True Cons.prems show ?thesis by simp
  next
    case False
    then have "cmp y x \<le> 0" using total by blast
    with False Cons show ?thesis by (simp add: set_insort_cmp)
  qed
qed

lemma sorted_sort_cmp:
  assumes "\<forall>a b. cmp a b \<le> 0 \<or> cmp b a \<le> 0"
    and "\<forall>a b c. cmp a b \<le> 0 \<and> cmp b c \<le> 0 \<longrightarrow> cmp a c \<le> 0"
  shows "sorted_wrt (\<lambda>a b. cmp a b \<le> 0) (sort_cmp cmp xs)"
proof (induction xs)
  case Nil
  show ?case by (simp add: sort_cmp_def)
next
  case (Cons x xs)
  then show ?case
    using sorted_insort_cmp [OF assms, of "sort_cmp cmp xs" x] by (simp add: sort_cmp_def)
qed

lemma sessions_loop_eq:
  "map Inr (sessions_loop env d acc fs) =
     map Inr acc @ filter (\<lambda>r. \<not> isl r) (map (readSession env d) fs)"
proof (induction fs arbitrary: acc)
  case Nil
  show ?case by simp
next
  case (Cons f fs)
  show ?case by (cases "readSession env d f") (simp_all add: Cons.IH)
qed

lemma readSession_record:
  assumes "readFile env (path_join env d f) = Inr raw"
    and "JSON_parse env raw = Inr (JObj kvs)"
    and "map_of kvs ''messages'' = Some (JArr ms)"
  shows "readSession env d f =
     Inr \<lparr>si_sessionId = (case map_of kvs ''sessionId'' of None \<Rightarrow> JUndefined | Some v \<Rightarrow> v),
          si_filePath = path_join env d f,
          si_startTime = (case map_of kvs ''startTime'' of None \<Rightarrow> JUndefined | Some v \<Rightarrow> v),
          si_lastUpdated = (case map_of kvs ''lastUpdated'' of None \<Rightarrow> JUndefined | Some v \<Rightarrow> v),
          si_messageCount = JNum (int (length ms)),
          si_summary = (case map_of kvs ''summary'' of None \<Rightarrow> JUndefined | Some v \<Rightarrow> v)\<rparr>"
  using assms by (simp add: readSession_def bindE_def Let_def)

lemma readSession_corrupt:
  "readFile env (path_join env d f) = Inl e \<or>
   (\<exists>raw. readFile env (path_join env d f) = Inr raw \<and> (\<exists>e. JSON_parse env raw = Inl e)) \<Longrightarrow>
   isl (readSession env d f)"
  by (auto simp: readSession_def bindE_def Let_def)

text \<open>
  C8. When the chats directory can be read, \<^verbatim>\<open>listSessions\<close> returns exactly the summaries of
  the session-record files that decode, in the order of the sorted file names; the sorted
  names are a permutation of the session-record files of the directory and, for a consistent
  collation, descend (newest first). A file that cannot be read or parsed contributes nothing
  and does not stop the listing; a well-formed record gives the summary of its fields.
\<close>

theorem listSessions_decodable_newest_first:
  assumes "chatsDir = path_join env (projectTempDir env) ''chats''"
    and "readdir env chatsDir = Inr files"
    and "sessionFiles = sort_cmp (\<lambda>a b. localeCompare env b a) (filter (isSessionFile env) files)"
  shows "map Inr (listSessions env) =
           filter (\<lambda>r. \<not> isl r) (map (readSession env chatsDir) sessionFiles) \<and>
         mset sessionFiles =
           mset (filter (\<lambda>f. prefix (SESSION_FILE_PREFIX env) f \<and> suffix ''.json'' f) files) \<and>
         ((\<forall>a b. localeCompare env a b \<le> 0 \<or> localeCompare env b a \<le> 0) \<and>
          (\<forall>a b c. localeCompare env a b \<le> 0 \<and> localeCompare env b c \<le> 0 \<longrightarrow>
                   localeCompare env a c \<le> 0) \<longrightarrow>
            sorted_wrt (\<lambda>a b. localeCompare env b a \<le> 0) sessionFiles) \<and>
         (\<forall>f\<in>set sessionFiles.
            (readFile env (path_join env chatsDir f) = Inl e \<or>
             (\<exists>raw. readFile env (path_join env chatsDir f) = Inr raw \<and>
                    (\<exists>e. JSON_parse env raw = Inl e)) \<longrightarrow>
               isl (readSession env chatsDir f)) \<and>
            (readFile env (path_join env chatsDir f) = Inr raw \<and>
             JSON_parse env raw = Inr (JObj kvs) \<and> map_of kvs ''messages'' = Some (JArr ms) \<longrightarrow>
               readSession env chatsDir f =
                 Inr \<lparr>si_sessionId =
                        (case map_of kvs ''sessionId'' of None \<Rightarrow> JUndefined | Some v \<Rightarrow> v),
                      si_filePath = path_join env chatsDir f,
                      si_startTime =
                        (case map_of kvs ''startTime'' of None \<Rightarrow> JUndefined | Some v \<Rightarrow> v),
                      si_lastUpdated =
                        (case map_of kvs ''lastUpdated'' of None \<Rightarrow> JUndefined | Some v \<Rightarrow> v),
                      si_messageCount = JNum (int (length ms)),
                      si_summary =
                        (case map_of kvs ''summary'' of None \<Rightarrow> JUndefined | Some v \<Rightarrow> v)\<rparr>))"
proof (intro conjI impI ballI)
  show "map Inr (listSessions env) =
      filter (\<lambda>r. \<not> isl r) (map (readSession env chatsDir) sessionFiles)"
    using assms sessions_loop_eq [of env chatsDir "[]" sessionFiles]
    by (simp add: listSessions_def Let_def)
next
  show "mset sessionFiles =
      mset (filter (\<lambda>f. prefix (SESSION_FILE_PREFIX env) f \<and> suffix ''.json'' f) files)"
    unfolding assms(3) mset_sort_cmp by (simp add: isSessionFile_def)
next
  assume c: "(\<forall>a b. localeCompare env a b \<le> 0 \<or> localeCompare env b a \<le> 0) \<and>
    (\<forall>a b c. localeCompare env a b \<le> 0 \<and> localeCompare env b c \<le> 0 \<longrightarrow>
             localeCompare env a c \<le> 0)"
  have total: "\<forall>a b. localeCompare env b a \<le> 0 \<or> localeCompare env a b \<le> 0"
    using c by blast
  have trans: "\<forall>a b c. localeCompare env b a \<le> 0 \<and> localeCompare env c b \<le> 0 \<longrightarrow>
      localeCompare env c a \<le> 0"
    using c by blast
  show "sorted_wrt (\<lambda>a b. localeCompare env b a \<le> 0) sessionFiles"
    unfolding assms(3)
    using sorted_sort_cmp [of "\<lambda>a b. localeCompare env b a", OF total trans] .
next
  fix f
  assume "readFile env (path_join env chatsDir f) = Inl e \<or>
    (\<exists>raw. readFile env (path_join env chatsDir f) = Inr raw \<and> (\<exists>e. JSON_parse env raw = Inl e))"
  then show "isl (readSession env chatsDir f)" by (rule readSession_corrupt)
next
  fix f
  assume "readFile env (path_join env chatsDir f) = Inr raw \<and>
    JSON_parse env raw = Inr (JObj kvs) \<and> map_of kvs ''messages'' = Some (JArr ms)"
  then show "readSession env chatsDir f =
      Inr \<lparr>si_sessionId = (case map_of kvs ''sessionId'' of None \<Rightarrow> JUndefined | Some v \<Rightarrow> v),
           si_filePath = path_join env chatsDir f,
           si_startTime = (case map_of kvs ''startTime'' of None \<Rightarrow> JUndefined | Some v \<Rightarrow> v),
           si_lastUpdated = (case map_of kvs ''lastUpdated'' of None \<Rightarrow> JUndefined | Some v \<Rightarrow> v),
           si_messageCount = JNum (int (length ms)),
           si_summary = (case map_of kvs ''summary'' of None \<Rightarrow> JUndefined | Some v \<Rightarrow> v)\<rparr>"
    using readSession_record [of env chatsDir f raw kvs ms] by blast
qed

theorem listSessions_decodable_newest_first_witness:
  "listSessions sampleFs =
     [\<lparr>si_sessionId = JStr ''s2'', si_filePath = ''/tmp/p/chats/session-2.json'',
       si_startTime = JUndefined, si_lastUpdated = JUndefined, si_messageCount = JNum 2,
       si_summary = JUndefined\<rparr>] \<and>
   sorted_wrt (\<lambda>a b. localeCompare sampleFs b a \<le> 0) [''session-1.json'', ''session-2.json''] \<and>
   isl (readSession sampleFs ''/tmp/p/chats'' ''session-1.json'')"
proof -
  have dir: "''/tmp/p/chats'' = path_join sampleFs (projectTempDir sampleFs) ''chats''"
    by (simp add: sampleFs_def)
  have rd: "readdir sampleFs ''/tmp/p/chats'' =
      Inr [''session-1.json'', ''notes.txt'', ''session-2.json'']"
    by (simp add: sampleFs_def)
  have files: "[''session-1.json'', ''session-2.json''] =
      sort_cmp (\<lambda>a b. localeCompare sampleFs b a)
        (filter (isSessionFile sampleFs) [''session-1.json'', ''notes.txt'', ''session-2.json''])"
    by (simp add: sampleFs_def isSessionFile_def sort_cmp_def suffix_to_prefix)
  have cmp: "(\<forall>a b. localeCompare sampleFs a b \<le> 0 \<or> localeCompare sampleFs b a \<le> 0) \<and>
      (\<forall>a b c. localeCompare sampleFs a b \<le> 0 \<and> localeCompare sampleFs b c \<le> 0 \<longrightarrow>
               localeCompare sampleFs a c \<le> 0)"
    by (auto simp: sampleFs_def)
  have r1: "readFile sampleFs (path_join sampleFs ''/tmp/p/chats'' ''session-1.json'') =
      Inr ''/tmp/p/chats/session-1.json'' \<and>
      JSON_parse sampleFs ''/tmp/p/chats/session-1.json'' = Inl (OtherError ''SyntaxError'')"
    by (simp add: sampleFs_def)
  have r2: "readFile sampleFs (path_join sampleFs ''/tmp/p/chats'' ''session-2.json'') =
      Inr ''/tmp/p/chats/session-2.json'' \<and>
      JSON_parse sampleFs ''/tmp/p/chats/session-2.json'' =
        Inr (JObj [(''sessionId'', JStr ''s2''), (''messages'', JArr [JNull, JNull])]) \<and>
      map_of [(''sessionId'', JStr ''s2''), (''messages'', JArr [JNull, JNull])] ''messages'' =
        Some (JArr [JNull, JNull])"
    by (simp add: sampleFs_def)
  note thm1 = listSessions_decodable_newest_first
    [OF dir rd files, of "OtherError ''x''" "''/tmp/p/chats/session-2.json''"
       "[(''sessionId'', JStr ''s2''), (''messages'', JArr [JNull, JNull])]" "[JNull, JNull]"]
  note c1 = thm1 [THEN conjunct1]
  note c3 = thm1 [THEN conjunct2, THEN conjunct2, THEN conjunct1]
  note c4 = thm1 [THEN conjunct2, THEN conjunct2, THEN conjunct2]
  have m1: "''session-1.json'' \<in> set [''session-1.json'', ''session-2.json'']" by simp
  have m2: "''session-2.json'' \<in> set [''session-1.json'', ''session-2.json'']" by simp
  have s1: "isl (readSession sampleFs ''/tmp/p/chats'' ''session-1.json'')"
    using c4 [THEN bspec, OF m1, THEN conjunct1] r1 by blast
  have s2: "readSession sampleFs ''/tmp/p/chats'' ''session-2.json'' =
      Inr \<lparr>si_sessionId = JStr ''s2'', si_filePath = ''/tmp/p/chats/session-2.json'',
           si_startTime = JUndefined, si_lastUpdated = JUndefined, si_messageCount = JNum 2,
           si_summary = JUndefined\<rparr>"
    using c4 [THEN bspec, OF m2, THEN conjunct2, THEN mp, OF r2] by (simp add: sampleFs_def)
  have f1: "filter (\<lambda>r. \<not> isl r)
      (map (readSession sampleFs ''/tmp/p/chats'') [''session-1.json'', ''session-2.json'']) =
      [Inr \<lparr>si_sessionId = JStr ''s2'', si_filePath = ''/tmp/p/chats/session-2.json'',
           si_startTime = JUndefined, si_lastUpdated = JUndefined, si_messageCount = JNum 2,
           si_summary = JUndefined\<rparr>]"
    using s1 by (simp add: s2)
  have "(map Inr (listSessions sampleFs) :: (thrown + sessionInfo) list) =
      [Inr \<lparr>si_sessionId = JStr ''s2'', si_filePath = ''/tmp/p/chats/session-2.json'',
           si_startTime = JUndefined, si_lastUpdated = JUndefined, si_messageCount = JNum 2,
           si_summary = JUndefined\<rparr>]"
    by (rule trans [OF c1 f1])
  then have l: "listSessions sampleFs =
      [\<lparr>si_sessionId = JStr ''s2'', si_filePath = ''/tmp/p/chats/session-2.json'',
        si_startTime = JUndefined, si_lastUpdated = JUndefined, si_messageCount = JNum 2,
        si_summary = JUndefined\<rparr>]"
    by (auto simp: map_eq_Cons_conv)
  have "sorted_wrt (\<lambda>a b. localeCompare sampleFs b a \<le> 0) [''session-1.json'', ''session-2.json'']"
    using c3 [THEN mp, OF cmp] .
  with l s1 show ?thesis by simp
qed

section \<open>Properties of the turn loop\<close>

lemma roundStep_trace:
  assumes "roundStep c sid req a = ((evs, r), a1)"
  shows "instructionsLoaded a1 = instructionsLoaded a \<and>
         ((\<exists>out. r = Inl out) \<and> trace a1 = trace a @ [StreamCall req] \<or>
          (\<exists>tcs cs. r = Inr (functionResponses cs) \<and>
                    trace a1 = trace a @ [StreamCall req, ScheduleCall tcs cs]))"
  using assms
  by (auto simp: roundStep_def Let_def split: prod.splits option.splits sum.splits if_splits)

lemma sendLoop_trace:
  "\<exists>d. trace (snd (sendLoop n c sid req a)) = trace a @ d \<and>
       (d = [] \<or> (\<exists>rest. d = StreamCall req # rest)) \<and>
       fedBy d \<and> list_all (\<lambda>x. \<not> isResolution x) d \<and>
       instructionsLoaded (snd (sendLoop n c sid req a)) = instructionsLoaded a"
proof (induction n arbitrary: req a)
  case 0
  show ?case by simp
next
  case (Suc n)
  obtain evs r a1 where rs: "roundStep c sid req a = ((evs, r), a1)"
    by (metis prod.exhaust)
  note step = roundStep_trace [OF rs]
  show ?case
  proof (cases r)
    case (Inl out)
    with step have "trace a1 = trace a @ [StreamCall req]" by auto
    with step Inl rs show ?thesis by simp
  next
    case (Inr req')
    with step obtain tcs cs where r': "req' = functionResponses cs"
      and tr: "trace a1 = trace a @ [StreamCall req, ScheduleCall tcs cs]" by auto
    from Suc.IH [of req' a1] obtain d where
      d: "trace (snd (sendLoop n c sid req' a1)) = trace a1 @ d"
         "d = [] \<or> (\<exists>rest. d = StreamCall req' # rest)"
         "fedBy d" "list_all (\<lambda>x. \<not> isResolution x) d"
         "instructionsLoaded (snd (sendLoop n c sid req' a1)) = instructionsLoaded a1"
      by blast
    have fed: "fedBy (StreamCall req # ScheduleCall tcs cs # d)"
      using d(2,3) r' by auto
    have res: "snd (sendLoop (Suc n) c sid req a) = snd (sendLoop n c sid req' a1)"
      using rs Inr by (simp split: prod.splits)
    show ?thesis
      unfolding res
      by (rule exI [of _ "StreamCall req # ScheduleCall tcs cs # d"])
         (use d tr fed step in simp)
  qed
qed


lemma sendStream_trace:
  "\<exists>ic rounds.
     trace (snd (sendStream fuel c instr prompt a)) = trace a @ ic @ rounds \<and>
     (ic = [] \<or> ic = [InstructionsCall False] \<or> ic = [InstructionsCall True] \<or>
      ic = [InstructionsCall True, MarkLoaded]) \<and>
     list_all (\<lambda>x. \<not> isResolution x) rounds \<and>
     (rounds = [] \<or> (\<exists>rest. rounds = StreamCall [textPart prompt] # rest)) \<and>
     fedBy (ic @ rounds) \<and>
     (instructionsLoaded a \<longrightarrow> ic = []) \<and>
     (instructionsLoaded (snd (sendStream fuel c instr prompt a)) \<longleftrightarrow>
        instructionsLoaded a \<or> ic = [InstructionsCall True, MarkLoaded]) \<and>
     (ic = [InstructionsCall False] \<or> ic = [InstructionsCall True] \<longrightarrow>
        rounds = [] \<and> (\<exists>e. snd (fst (sendStream fuel c instr prompt a)) = Threw e)) \<and>
     ((\<exists>s. instr = Literal s) \<longrightarrow> ic = []) \<and>
     (\<forall>f b1. \<not> instructionsLoaded a \<and> instr = Resolver f \<and>
             initialize c (backend a) = (None, b1) \<longrightarrow>
        ic \<noteq> [] \<and>
        (ic = [InstructionsCall False] \<longleftrightarrow> isl (f (buildContext c (getSessionId c b1) b1))))"
proof -
  obtain r0 b1 where init: "initialize c (backend a) = (r0, b1)"
    by (metis prod.exhaust)
  define a1 where "a1 = a\<lparr>backend := b1\<rparr>"
  have a1: "trace a1 = trace a" "instructionsLoaded a1 = instructionsLoaded a"
    by (simp_all add: a1_def)
  show ?thesis
  proof (cases r0)
    case (Some e)
    then have "snd (sendStream fuel c instr prompt a) = a1"
      using init by (simp add: sendStream_def a1_def)
    then show ?thesis
      using a1 init Some by - (rule exI [of _ "[]"], rule exI [of _ "[]"], simp)
  next
    case None
    note noerr = None
    define ctx where "ctx = buildContext c (getSessionId c b1) b1"
    obtain r a2 where res: "(if \<not> instructionsLoaded a1
                          then resolveInstructions c instr ctx a1
                          else (None, a1)) = (r, a2)"
      by (metis prod.exhaust)
    have send: "sendStream fuel c instr prompt a =
        (case r of Some e \<Rightarrow> (([], Threw e), a2)
         | None \<Rightarrow> sendLoop fuel c (getSessionId c b1) [textPart prompt] a2)"
      using init noerr res a1(2)
      by (auto simp: sendStream_def a1_def [symmetric] ctx_def [symmetric] Let_def
               split: if_splits)
    have shape: "\<exists>ic. trace a2 = trace a @ ic \<and>
        (ic = [] \<or> ic = [InstructionsCall False] \<or> ic = [InstructionsCall True] \<or>
         ic = [InstructionsCall True, MarkLoaded]) \<and>
        (instructionsLoaded a \<longrightarrow> ic = []) \<and>
        (instructionsLoaded a2 \<longleftrightarrow> instructionsLoaded a \<or> ic = [InstructionsCall True, MarkLoaded]) \<and>
        (ic = [InstructionsCall False] \<or> ic = [InstructionsCall True] \<longrightarrow> r \<noteq> None) \<and>
        (ic = [] \<or> ic = [InstructionsCall True, MarkLoaded] \<longrightarrow> r = None) \<and>
        ((\<exists>s. instr = Literal s) \<longrightarrow> ic = []) \<and>
        (\<forall>f. \<not> instructionsLoaded a \<and> instr = Resolver f \<longrightarrow>
           ic \<noteq> [] \<and> (ic = [InstructionsCall False] \<longleftrightarrow> isl (f ctx)))"
      using res a1
      by (auto simp: resolveInstructions_def Let_def
               split: if_splits instructions.splits sum.splits prod.splits option.splits)
    then obtain ic where ic: "trace a2 = trace a @ ic"
        "ic = [] \<or> ic = [InstructionsCall False] \<or> ic = [InstructionsCall True] \<or>
         ic = [InstructionsCall True, MarkLoaded]"
        "instructionsLoaded a \<longrightarrow> ic = []"
        "instructionsLoaded a2 \<longleftrightarrow> instructionsLoaded a \<or> ic = [InstructionsCall True, MarkLoaded]"
        "ic = [InstructionsCall False] \<or> ic = [InstructionsCall True] \<longrightarrow> r \<noteq> None"
        "ic = [] \<or> ic = [InstructionsCall True, MarkLoaded] \<longrightarrow> r = None"
        "(\<exists>s. instr = Literal s) \<longrightarrow> ic = []"
        "\<forall>f. \<not> instructionsLoaded a \<and> instr = Resolver f \<longrightarrow>
           ic \<noteq> [] \<and> (ic = [InstructionsCall False] \<longleftrightarrow> isl (f ctx))"
      by blast
    have retry: "\<forall>f b. \<not> instructionsLoaded a \<and> instr = Resolver f \<and>
             initialize c (backend a) = (None, b) \<longrightarrow>
        ic \<noteq> [] \<and>
        (ic = [InstructionsCall False] \<longleftrightarrow> isl (f (buildContext c (getSessionId c b) b)))"
      using ic(8) init by (simp add: ctx_def)
    have fed_ic: "fedBy (ic @ d) = fedBy d" for d
      using ic(2) by (cases d) auto
    show ?thesis
    proof (cases r)
      case (Some e)
      then have s: "sendStream fuel c instr prompt a = (([], Threw e), a2)"
        using send by simp
      have nonempty: "ic \<noteq> [] \<and> ic \<noteq> [InstructionsCall True, MarkLoaded]"
        using ic(6) Some by auto
      show ?thesis
        unfolding s
        using ic(1-4,7) retry nonempty
        by - (rule exI [of _ ic], rule exI [of _ "[]"], simp add: fed_ic [of "[]", simplified])
    next
      case None
      then have s: "sendStream fuel c instr prompt a =
          sendLoop fuel c (getSessionId c b1) [textPart prompt] a2"
        using send by simp
      from sendLoop_trace [of fuel c "getSessionId c b1" "[textPart prompt]" a2] obtain d where
        d: "trace (snd (sendLoop fuel c (getSessionId c b1) [textPart prompt] a2)) = trace a2 @ d"
           "d = [] \<or> (\<exists>rest. d = StreamCall [textPart prompt] # rest)"
           "fedBy d" "list_all (\<lambda>x. \<not> isResolution x) d"
           "instructionsLoaded (snd (sendLoop fuel c (getSessionId c b1) [textPart prompt] a2)) =
              instructionsLoaded a2"
        by blast
      have ok: "ic = [] \<or> ic = [InstructionsCall True, MarkLoaded]"
        using ic(2,5) None by auto
      have no: "\<not> (ic = [InstructionsCall False] \<or> ic = [InstructionsCall True])"
        using ok by auto
      show ?thesis
        unfolding s
        using ic(1-4,7) retry d no
        by - (rule exI [of _ ic], rule exI [of _ d], simp add: fed_ic)
    qed
  qed
qed

lemma functionResponses_single:
  "\<forall>c\<in>set cs. length (responseParts c) = 1 \<Longrightarrow>
   functionResponses cs = map (\<lambda>c. hd (responseParts c)) cs"
proof (induction cs)
  case Nil
  show ?case by (simp add: functionResponses_def)
next
  case (Cons c cs)
  then have "length (responseParts c) = 1" by simp
  then have "responseParts c = [hd (responseParts c)]"
    by (cases "responseParts c") simp_all
  with Cons show ?case by (simp add: functionResponses_def)
qed

lemma single_part: "length xs = 1 \<Longrightarrow> xs = [hd xs]"
  by (cases xs) simp_all

text \<open>
  C1 (as amended). In every send, the request of a round that follows a tool-call batch is the
  concatenation of the response parts of the completions the scheduler returned, in the order
  of the completions. The number of parts fed to the next round is therefore the sum of the
  numbers of parts of the completions; it equals the number of completions, with the part at
  each position that of the request at that position, when every completion carries exactly
  one part and the scheduler returns the completions in request order.
\<close>

theorem next_round_input:
  "(\<exists>new. trace (snd (sendStream fuel c instr prompt a)) = trace a @ new \<and> fedBy new) \<and>
   functionResponses cs = concat (map responseParts cs) \<and>
   length (functionResponses cs) = sum_list (map (\<lambda>call. length (responseParts call)) cs) \<and>
   ((\<forall>call\<in>set cs. length (responseParts call) = 1) \<and>
    map completed_callId cs = map req_callId tcs \<longrightarrow>
      length (functionResponses cs) = length cs \<and> length cs = length tcs \<and>
      (\<forall>i<length tcs.
         responseParts (cs ! i) = [functionResponses cs ! i] \<and>
         completed_callId (cs ! i) = req_callId (tcs ! i)))"
proof (intro conjI impI)
  from sendStream_trace [of fuel c instr prompt a] obtain ic rounds where
    "trace (snd (sendStream fuel c instr prompt a)) = trace a @ ic @ rounds" "fedBy (ic @ rounds)"
    by blast
  then show "\<exists>new. trace (snd (sendStream fuel c instr prompt a)) = trace a @ new \<and> fedBy new"
    by blast
next
  show "functionResponses cs = concat (map responseParts cs)"
    by (simp add: functionResponses_def)
next
  show "length (functionResponses cs) = sum_list (map (\<lambda>call. length (responseParts call)) cs)"
    by (simp add: functionResponses_def length_concat comp_def)
next
  assume h: "(\<forall>call\<in>set cs. length (responseParts call) = 1) \<and>
    map completed_callId cs = map req_callId tcs"
  then have eq: "functionResponses cs = map (\<lambda>c. hd (responseParts c)) cs"
    by (simp add: functionResponses_single)
  show "length (functionResponses cs) = length cs" by (simp add: eq)
  from h have "length (map completed_callId cs) = length (map req_callId tcs)" by simp
  then show len: "length cs = length tcs" by simp
  show "\<forall>i<length tcs.
         responseParts (cs ! i) = [functionResponses cs ! i] \<and>
         completed_callId (cs ! i) = req_callId (tcs ! i)"
  proof (intro allI impI)
    fix i assume i: "i < length tcs"
    then have ic: "i < length cs" using len by simp
    then have "cs ! i \<in> set cs" by simp
    with h have "length (responseParts (cs ! i)) = 1" by blast
    then have p: "responseParts (cs ! i) = [hd (responseParts (cs ! i))]" by (rule single_part)
    have "map completed_callId cs ! i = map req_callId tcs ! i" using h by simp
    then have q: "completed_callId (cs ! i) = req_callId (tcs ! i)" using i ic by simp
    show "responseParts (cs ! i) = [functionResponses cs ! i] \<and>
          completed_callId (cs ! i) = req_callId (tcs ! i)"
      using p q ic by (simp add: eq)
  qed
qed


theorem next_round_input_witness:
  "length (functionResponses
      [\<lparr>completed_callId = ''c1'', responseParts = [textPart ''saved'']\<rparr>,
       \<lparr>completed_callId = ''c2'', responseParts = [textPart ''found'']\<rparr>]) = 2 \<and>
   functionResponses [\<lparr>completed_callId = ''c1'', responseParts = [textPart ''saved'']\<rparr>,
                      \<lparr>completed_callId = ''c2'', responseParts = [textPart ''found'']\<rparr>] =
     [textPart ''saved'', textPart ''found''] \<and>
   fedBy (trace (snd (sendStream (Suc (Suc 0)) sampleCore (Literal ''be brief'') ''describe''
                        (newAgent (Literal ''be brief'') 0))))"
  using next_round_input
    [of "Suc (Suc 0)" sampleCore "Literal ''be brief''" "''describe''"
        "newAgent (Literal ''be brief'') 0"
        "[\<lparr>completed_callId = ''c1'', responseParts = [textPart ''saved'']\<rparr>,
          \<lparr>completed_callId = ''c2'', responseParts = [textPart ''found'']\<rparr>]"
        "[\<lparr>req_callId = ''c1'', req_name = ''save_note'', req_args = JObj [],
           isClientInitiated = False, prompt_id = ''s''\<rparr>,
          \<lparr>req_callId = ''c2'', req_name = ''lookup'', req_args = JObj [],
           isClientInitiated = False, prompt_id = ''s''\<rparr>]"]
  by (auto simp: newAgent_def)

text \<open>
  C1, the claim as stated, fails: the scheduler returns one completion that carries two
  response parts, and the next round is fed two parts.
\<close>

theorem next_round_input_counterexample:
  "trace (snd (sendStream (Suc (Suc 0)) sampleCore (Literal ''be brief'') ''describe''
                 (newAgent (Literal ''be brief'') 0))) =
     [StreamCall [textPart ''describe''],
      ScheduleCall
        [\<lparr>req_callId = ''c1'', req_name = ''read_image'', req_args = JObj [],
          isClientInitiated = False, prompt_id = ''s''\<rparr>]
        [\<lparr>completed_callId = ''c1'',
          responseParts = [JObj [(''functionResponse'', JObj [(''id'', JStr ''c1'')])],
                           JObj [(''inlineData'', JStr ''...'')]]\<rparr>],
      StreamCall [JObj [(''functionResponse'', JObj [(''id'', JStr ''c1'')])],
                  JObj [(''inlineData'', JStr ''...'')]]] \<and>
   length [JObj [(''functionResponse'', JObj [(''id'', JStr ''c1'')])],
           JObj [(''inlineData'', JStr ''...'')]] \<noteq>
   length [\<lparr>completed_callId = ''c1'',
            responseParts = [JObj [(''functionResponse'', JObj [(''id'', JStr ''c1'')])],
                             JObj [(''inlineData'', JStr ''...'')]]\<rparr>]"
  by (simp add: sendStream_def newAgent_def sampleCore_def roundStep_def extractToolCalls_def
                functionResponses_def buildContext_def resolveInstructions_def Let_def)










end
